theory Spec2Isabelle
  imports Complex_Main
begin

section \<open>Texts\<close>

text \<open>
  A text is a list of characters. The model covers texts of the ASCII range: there
  \<open>String.prototype.trim\<close> removes the six white-space characters below and
  \<open>String.prototype.toUpperCase\<close> maps \<open>a\<close>..\<open>z\<close> to \<open>A\<close>..\<open>Z\<close> and leaves
  every other character as it is.
\<close>

definition is_space :: "char \<Rightarrow> bool" where
  "is_space c = (c \<in> set [CHR 0x09, CHR 0x0A, CHR 0x0B, CHR 0x0C, CHR 0x0D, CHR 0x20])"

definition trim :: "string \<Rightarrow> string" where
  "trim s = rev (dropWhile is_space (rev (dropWhile is_space s)))"

definition upper_char :: "char \<Rightarrow> char" where
  "upper_char c =
     (case map_of (zip ''abcdefghijklmnopqrstuvwxyz'' ''ABCDEFGHIJKLMNOPQRSTUVWXYZ'') c of
        Some u \<Rightarrow> u
      | None \<Rightarrow> c)"

definition toUpperCase :: "string \<Rightarrow> string" where
  "toUpperCase s = map upper_char s"

text \<open>\<open>s.split(c)\<close> for a one-character separator: never the empty list.\<close>

fun split :: "char \<Rightarrow> string \<Rightarrow> string list" where
  "split c [] = [[]]"
| "split c (x # xs) =
     (if x = c then [] # split c xs
      else (case split c xs of
              [] \<Rightarrow> [[x]]
            | y # ys \<Rightarrow> (x # y) # ys))"

text \<open>\<open>xs.join(sep)\<close>.\<close>

fun join :: "string \<Rightarrow> string list \<Rightarrow> string" where
  "join sep [] = []"
| "join sep [x] = x"
| "join sep (x # y # ys) = x @ sep @ join sep (y # ys)"

text \<open>The text a template literal shows for a value that may be \<open>undefined\<close>.\<close>

definition shown :: "string option \<Rightarrow> string" where
  "shown v = (case v of None \<Rightarrow> ''undefined'' | Some s \<Rightarrow> s)"

text \<open>A string is truthy when it is defined and not empty; \<open>a || b\<close> on such values.\<close>

definition truthy :: "string option \<Rightarrow> bool" where
  "truthy v = (case v of None \<Rightarrow> False | Some s \<Rightarrow> s \<noteq> [])"

definition or_else :: "string option \<Rightarrow> string option \<Rightarrow> string option" where
  "or_else a b = (if truthy a then a else b)"

section \<open>Permission configuration and statement types\<close>

record PermissionConfig =
  allowedSqlTypes :: "string list"
  tablePatterns :: "string list"
  allowedDatabases :: "string list"
  allowMultiStatement :: bool
  readOnly :: bool

text \<open>
  The result objects of the two validators, \<open>{valid, sqlType?, error?}\<close> and
  \<open>{valid, error?}\<close>: an absent property is \<open>None\<close>.
\<close>

record Validation =
  valid :: bool
  sqlType :: "string option"
  error :: "string option"

definition sql_keywords :: "string list" where
  "sql_keywords =
     [''SELECT'', ''INSERT'', ''UPDATE'', ''DELETE'', ''CREATE'', ''DROP'', ''ALTER'',
      ''TRUNCATE'', ''REPLACE'', ''CALL'', ''EXPLAIN'', ''SHOW'', ''DESCRIBE'', ''USE'']"

definition starts_with :: "string \<Rightarrow> string \<Rightarrow> bool" where
  "starts_with k s = (take (length k) s = k)"

text \<open>
  The match of \<open>/^(SELECT|INSERT|...|USE)/\<close>: the first alternative, in the order
  written, that the text starts with.
\<close>

definition sqlTypeMatch :: "string \<Rightarrow> string option" where
  "sqlTypeMatch s = find (\<lambda>k. starts_with k s) sql_keywords"

definition detectSqlType :: "string \<Rightarrow> string" where
  "detectSqlType s = (case sqlTypeMatch s of Some k \<Rightarrow> k | None \<Rightarrow> ''UNKNOWN'')"

definition multi_statement :: "string \<Rightarrow> bool" where
  "multi_statement t =
     (CHR '';'' \<in> set t \<and> length (filter (\<lambda>s. trim s \<noteq> []) (split CHR '';'' t)) > 1)"

definition read_only_types :: "string list" where
  "read_only_types = [''SELECT'', ''EXPLAIN'', ''SHOW'', ''DESCRIBE'']"

definition multi_statement_error :: string where
  "multi_statement_error = ''Multi-statement queries are not allowed''"

definition read_only_error :: string where
  "read_only_error = ''Server is in read-only mode. Only SELECT queries are allowed''"

definition not_allowed_error :: "string \<Rightarrow> string list \<Rightarrow> string" where
  "not_allowed_error ty allowed =
     ''SQL type '' @ [CHR 0x27] @ ty @ [CHR 0x27] @ '' is not allowed. Allowed types: ''
       @ join '', '' allowed"

definition validateSqlType :: "string \<Rightarrow> PermissionConfig \<Rightarrow> Validation" where
  "validateSqlType sql permissionConfig =
     (let trimmedSql = toUpperCase (trim sql) in
      if \<not> allowMultiStatement permissionConfig \<and> multi_statement trimmedSql
      then \<lparr>valid = False, sqlType = None, error = Some multi_statement_error\<rparr>
      else
        let ty = detectSqlType trimmedSql in
        if ty \<notin> set (allowedSqlTypes permissionConfig)
           \<and> ''*'' \<notin> set (allowedSqlTypes permissionConfig)
        then \<lparr>valid = False, sqlType = None,
               error = Some (not_allowed_error ty (allowedSqlTypes permissionConfig))\<rparr>
        else if readOnly permissionConfig \<and> ty \<notin> set read_only_types
        then \<lparr>valid = False, sqlType = None, error = Some read_only_error\<rparr>
        else \<lparr>valid = True, sqlType = Some ty, error = None\<rparr>)"

section \<open>Pattern matching and table access\<close>

text \<open>
  \<open>minimatch\<close> is a library outside the repository: \<open>matchesPattern\<close> takes the
  function \<open>\<lambda>text pattern. minimatch(text, pattern, {nocase: true})\<close> as its first
  argument. \<open>patterns.some(f)\<close> is \<open>list_ex f patterns\<close>.
\<close>

definition matchesPattern :: "(string \<Rightarrow> string \<Rightarrow> bool) \<Rightarrow> string \<Rightarrow> string list \<Rightarrow> bool" where
  "matchesPattern minimatch text patterns =
     list_ex (\<lambda>pattern. if pattern = ''*'' then True else minimatch text pattern) patterns"

definition database_error :: "string \<Rightarrow> string" where
  "database_error d = ''Access to database '' @ [CHR 0x27] @ d @ [CHR 0x27] @ '' is not allowed''"

definition table_error :: "string \<Rightarrow> string" where
  "table_error t = ''Access to table '' @ [CHR 0x27] @ t @ [CHR 0x27] @ '' is not allowed''"

definition validateTableAccess ::
  "(string \<Rightarrow> string \<Rightarrow> bool) \<Rightarrow> string \<Rightarrow> PermissionConfig \<Rightarrow> string option \<Rightarrow> Validation" where
  "validateTableAccess minimatch tableName permissionConfig database =
     (if truthy database
         \<and> \<not> matchesPattern minimatch (shown database) (allowedDatabases permissionConfig)
      then \<lparr>valid = False, sqlType = None, error = Some (database_error (shown database))\<rparr>
      else if \<not> matchesPattern minimatch tableName (tablePatterns permissionConfig)
      then \<lparr>valid = False, sqlType = None, error = Some (table_error tableName)\<rparr>
      else \<lparr>valid = True, sqlType = None, error = None\<rparr>)"

section \<open>Table references\<close>

datatype TableRef = TableRef (ref_database: "string option") (ref_table: string)

text \<open>
  The eight expressions of \<open>extractTableRefs\<close> have one shape: key words separated by
  \<open>\s+\<close>, then \<open>\s+\<close>, then the group \<open>([`\w]+(?:\s*\.\s*[`\w]+)?)\<close>, all with the flags
  \<open>g\<close> and \<open>i\<close>. An expression is given by its key words. White space, the characters of
  \<open>[`\w]\<close> and the dot are pairwise disjoint and every quantifier is greedy, so at a given
  start there is at most one way to match and no backtracking changes it: each run is
  taken whole.
\<close>

definition table_patterns :: "string list list" where
  "table_patterns =
     [[''FROM''], [''JOIN''], [''UPDATE''], [''INSERT'', ''INTO''], [''CREATE'', ''TABLE''],
      [''DROP'', ''TABLE''], [''ALTER'', ''TABLE''], [''TRUNCATE'', ''TABLE'']]"

definition is_word :: "char \<Rightarrow> bool" where
  "is_word c =
     (c \<in> set ''ABCDEFGHIJKLMNOPQRSTUVWXYZabcdefghijklmnopqrstuvwxyz0123456789_'')"

definition is_ident :: "char \<Rightarrow> bool" where
  "is_ident c = (c = CHR 0x60 \<or> is_word c)"

text \<open>The key words and the \<open>\s+\<close> after each, at the start of the text: what is left.\<close>

fun match_keywords :: "string list \<Rightarrow> string \<Rightarrow> string option" where
  "match_keywords [] s = Some s"
| "match_keywords (w # ws) s =
     (if toUpperCase (take (length w) s) = w
      then (case drop (length w) s of
              [] \<Rightarrow> None
            | c # r \<Rightarrow> if is_space c then match_keywords ws (dropWhile is_space r) else None)
      else None)"

text \<open>The group at the start of the text: the text it captures and what is left.\<close>

definition match_group :: "string \<Rightarrow> (string \<times> string) option" where
  "match_group s =
     (let a = takeWhile is_ident s; r1 = dropWhile is_ident s in
      if a = [] then None
      else (case dropWhile is_space r1 of
              [] \<Rightarrow> Some (a, r1)
            | c # r3 \<Rightarrow>
                if c = CHR ''.'' \<and> takeWhile is_ident (dropWhile is_space r3) \<noteq> []
                then Some (a @ takeWhile is_space r1 @ [c] @ takeWhile is_space r3
                             @ takeWhile is_ident (dropWhile is_space r3),
                           dropWhile is_ident (dropWhile is_space r3))
                else Some (a, r1)))"

text \<open>A match that starts at the first character: the captured text and the match's length.\<close>

definition match_at :: "string list \<Rightarrow> string \<Rightarrow> (string \<times> nat) option" where
  "match_at ws s =
     (case match_keywords ws s of
        None \<Rightarrow> None
      | Some r \<Rightarrow>
          (case match_group r of
             None \<Rightarrow> None
           | Some (cap, rest) \<Rightarrow> Some (cap, length s - length rest)))"

text \<open>
  The loop \<open>while ((match = pattern.exec(sql)) !== null)\<close>: the leftmost match at or
  after \<open>lastIndex\<close>, which then moves to the end of the match. The first argument counts
  the characters still before \<open>lastIndex\<close>.
\<close>

fun exec_all :: "nat \<Rightarrow> string list \<Rightarrow> string \<Rightarrow> string list" where
  "exec_all k ws [] = []"
| "exec_all k ws (c # cs) =
     (if 0 < k then exec_all (k - 1) ws cs
      else (case match_at ws (c # cs) of
              None \<Rightarrow> exec_all 0 ws cs
            | Some (cap, n) \<Rightarrow> cap # exec_all (n - 1) ws cs))"

text \<open>The reference of one match, when it has one or two parts and a table name.\<close>

definition ref_of_match :: "string \<Rightarrow> TableRef option" where
  "ref_of_match m =
     (let raw = filter (\<lambda>c. \<not> is_space c) m;
          parts = map (filter (\<lambda>c. c \<noteq> CHR 0x60 \<and> c \<noteq> CHR 0x27)) (split CHR ''.'' raw)
      in case parts of
           [t] \<Rightarrow> if t = [] then None else Some (TableRef None t)
         | [d, t] \<Rightarrow> if t = [] then None else Some (TableRef (Some d) t)
         | _ \<Rightarrow> None)"

definition add_ref :: "TableRef list \<Rightarrow> string \<Rightarrow> TableRef list" where
  "add_ref refs m =
     (case ref_of_match m of
        None \<Rightarrow> refs
      | Some r \<Rightarrow> if list_ex (\<lambda>r'. ref_table r' = ref_table r \<and> ref_database r' = ref_database r) refs
                  then refs else refs @ [r])"

definition extractTableRefs :: "string \<Rightarrow> TableRef list" where
  "extractTableRefs sql =
     fold (\<lambda>pattern refs. fold (\<lambda>m acc. add_ref acc m) (exec_all 0 pattern sql) refs)
       table_patterns []"

section \<open>Values of the runtime\<close>

text \<open>
  A number is a finite value or one of the three values that \<open>Number.isFinite\<close> rejects.
  Parsed JSON has no functions and no \<open>undefined\<close>; an object is the list of its own
  properties in the order \<open>Object.keys\<close> gives them, each key once.
\<close>

datatype number = Num real | NaN | PosInfinity | NegInfinity

datatype json =
    JNull
  | JBool bool
  | JNumber number
  | JString string
  | JArray "json list"
  | JObject "(string \<times> json) list"

datatype exn = Error string | TypeError

text \<open>
  What the program takes from its surroundings: the environment variables, the file
  system, and library functions whose code is not the repository's.
\<close>

record runtime =
  env :: "string \<Rightarrow> string option"
  default_config_path :: string
  read_file :: "string \<Rightarrow> string option"
  JSON_parse :: "string \<Rightarrow> string + json"
  Number :: "string \<Rightarrow> number"
  parseInt :: "string \<Rightarrow> number"
  minimatch :: "string \<Rightarrow> string \<Rightarrow> bool"
  getConnection :: "string \<Rightarrow> exn option"

text \<open>
  \<open>env\<close> is \<open>process.env\<close>; \<open>default_config_path\<close> is
  \<open>path.join(process.cwd(), '.mysql-mcp-server-secure', 'config.json')\<close>; \<open>read_file p\<close> is
  the content of the file at \<open>p\<close> when it exists; \<open>JSON_parse\<close> returns the message of
  the error it throws on the left; \<open>minimatch t p\<close> is
  \<open>minimatch(t, p, {nocase: true})\<close>; \<open>getConnection k\<close> is the error with which
  \<open>getConnection()\<close> of the pool with key \<open>k\<close> rejects, if it does.
\<close>

definition isFinite :: "number \<Rightarrow> bool" where
  "isFinite n = (case n of Num _ \<Rightarrow> True | _ \<Rightarrow> False)"

subsection \<open>Objects\<close>

text \<open>
  Own keys are ordered as the language orders them: array indices first, ascending, then
  the other keys in the order of their creation.
\<close>

definition is_digit :: "char \<Rightarrow> bool" where
  "is_digit c = (c \<in> set ''0123456789'')"

definition digit_value :: "char \<Rightarrow> nat" where
  "digit_value c = (case map_of (zip ''0123456789'' [0, 1, 2, 3, 4, 5, 6, 7, 8, 9]) c of
                      Some d \<Rightarrow> d | None \<Rightarrow> 0)"

definition index_value :: "string \<Rightarrow> nat" where
  "index_value k = foldl (\<lambda>n c. 10 * n + digit_value c) 0 k"

definition is_array_index :: "string \<Rightarrow> bool" where
  "is_array_index k =
     (k \<noteq> [] \<and> list_all is_digit k \<and> (k = ''0'' \<or> hd k \<noteq> CHR ''0'')
      \<and> index_value k < 4294967295)"

definition comes_before :: "string \<Rightarrow> string \<Rightarrow> bool" where
  "comes_before k k' =
     (is_array_index k \<and> (\<not> is_array_index k' \<or> index_value k < index_value k'))"

fun insert_prop :: "string \<Rightarrow> 'v \<Rightarrow> (string \<times> 'v) list \<Rightarrow> (string \<times> 'v) list" where
  "insert_prop k v [] = [(k, v)]"
| "insert_prop k v ((k', v') # ps) =
     (if comes_before k k' then (k, v) # (k', v') # ps else (k', v') # insert_prop k v ps)"

text \<open>Defining an own property: an existing key keeps its place.\<close>

definition define_prop :: "(string \<times> 'v) list \<Rightarrow> string \<Rightarrow> 'v \<Rightarrow> (string \<times> 'v) list" where
  "define_prop ps k v =
     (if map_of ps k = None then insert_prop k v ps
      else map (\<lambda>(k', v'). if k' = k then (k', v) else (k', v')) ps)"

text \<open>\<open>{...a, ...b}\<close>.\<close>

definition spread :: "(string \<times> 'v) list \<Rightarrow> (string \<times> 'v) list \<Rightarrow> (string \<times> 'v) list" where
  "spread a b = fold (\<lambda>(k, v) acc. define_prop acc k v) b (fold (\<lambda>(k, v) acc. define_prop acc k v) a [])"

text \<open>\<open>delete o[k]\<close>.\<close>

definition delete_prop :: "(string \<times> 'v) list \<Rightarrow> string \<Rightarrow> (string \<times> 'v) list" where
  "delete_prop ps k = filter (\<lambda>(k', v'). k' \<noteq> k) ps"

text \<open>
  \<open>o.k\<close> on a parsed JSON object, for a key that \<open>Object.prototype\<close> does not have
  (all keys the program reads this way are such): \<open>None\<close> is \<open>undefined\<close>.
\<close>

definition get_prop :: "(string \<times> json) list \<Rightarrow> string \<Rightarrow> json option" where
  "get_prop ps k = map_of ps k"

subsection \<open>Typed reads\<close>

definition isPlainObject :: "json option \<Rightarrow> bool" where
  "isPlainObject v = (case v of Some (JObject _) \<Rightarrow> True | _ \<Rightarrow> False)"

definition getString :: "json option \<Rightarrow> string option" where
  "getString v = (case v of Some (JString s) \<Rightarrow> Some s | _ \<Rightarrow> None)"

definition getNumber :: "runtime \<Rightarrow> json option \<Rightarrow> number option" where
  "getNumber rt v =
     (case v of
        Some (JNumber n) \<Rightarrow> if isFinite n then Some n else None
      | Some (JString s) \<Rightarrow>
          if trim s \<noteq> [] \<and> isFinite (Number rt s) then Some (Number rt s) else None
      | _ \<Rightarrow> None)"

definition getBoolean :: "json option \<Rightarrow> bool option" where
  "getBoolean v = (case v of Some (JBool b) \<Rightarrow> Some b | _ \<Rightarrow> None)"

fun string_items :: "json list \<Rightarrow> string list option" where
  "string_items [] = Some []"
| "string_items (JString s # vs) = map_option ((#) s) (string_items vs)"
| "string_items (_ # vs) = None"

definition getStringArray :: "json option \<Rightarrow> string list option" where
  "getStringArray v = (case v of Some (JArray vs) \<Rightarrow> string_items vs | _ \<Rightarrow> None)"

text \<open>\<open>a ?? b\<close>.\<close>

definition nullish :: "'a option \<Rightarrow> 'a \<Rightarrow> 'a" where
  "nullish a b = (case a of Some x \<Rightarrow> x | None \<Rightarrow> b)"

section \<open>Configuration\<close>

definition loadPermissionConfig :: "runtime \<Rightarrow> PermissionConfig" where
  "loadPermissionConfig rt =
     \<lparr>allowedSqlTypes =
        (if truthy (env rt ''ALLOWED_SQL_TYPES'')
         then map (\<lambda>s. toUpperCase (trim s)) (split CHR '','' (shown (env rt ''ALLOWED_SQL_TYPES'')))
         else [''SELECT'']),
      tablePatterns =
        (if truthy (env rt ''TABLE_PATTERNS'')
         then map trim (split CHR '','' (shown (env rt ''TABLE_PATTERNS'')))
         else [''*'']),
      allowedDatabases =
        (if truthy (env rt ''ALLOWED_DATABASES'')
         then map trim (split CHR '','' (shown (env rt ''ALLOWED_DATABASES'')))
         else [''*'']),
      allowMultiStatement = (env rt ''ALLOW_MULTI_STATEMENT'' = Some ''true''),
      readOnly = (env rt ''READ_ONLY'' \<noteq> Some ''false'')\<rparr>"

record ConnectionConfig =
  host :: string
  user :: string
  password :: string
  port :: number
  database :: "string option"
  waitForConnections :: bool
  connectionLimit :: number
  queueLimit :: number

record SourceConfig =
  connection :: ConnectionConfig
  permissions :: PermissionConfig

definition loadDefaultConnectionConfig :: "runtime \<Rightarrow> ConnectionConfig" where
  "loadDefaultConnectionConfig rt =
     \<lparr>host = shown (or_else (env rt ''DB_HOST'') (Some ''127.0.0.1'')),
      user = shown (or_else (env rt ''DB_USER'') (Some ''root'')),
      password = shown (or_else (env rt ''DB_PASSWORD'') (Some [])),
      port = parseInt rt (shown (or_else (env rt ''DB_PORT'') (Some ''3306''))),
      database = env rt ''DB_NAME'',
      waitForConnections = True,
      connectionLimit = Num 10,
      queueLimit = Num 0\<rparr>"

definition normalizePermissionConfig :: "PermissionConfig \<Rightarrow> json option \<Rightarrow> PermissionConfig" where
  "normalizePermissionConfig base override =
     (case override of
        Some (JObject ov) \<Rightarrow>
          \<lparr>allowedSqlTypes =
             nullish (map_option (map (\<lambda>s. toUpperCase (trim s)))
                        (getStringArray (get_prop ov ''allowedSqlTypes'')))
               (allowedSqlTypes base),
           tablePatterns =
             nullish (map_option (map trim) (getStringArray (get_prop ov ''tablePatterns'')))
               (tablePatterns base),
           allowedDatabases =
             nullish (map_option (map trim) (getStringArray (get_prop ov ''allowedDatabases'')))
               (allowedDatabases base),
           allowMultiStatement =
             nullish (getBoolean (get_prop ov ''allowMultiStatement'')) (allowMultiStatement base),
           readOnly = nullish (getBoolean (get_prop ov ''readOnly'')) (readOnly base)\<rparr>
      | _ \<Rightarrow> base)"

record ServerConfigFile =
  defaultSource :: "string option"
  sources :: "(string \<times> json) list"

text \<open>
  One candidate path of \<open>loadServerConfigFile\<close>: \<open>None\<close> when the file does not exist
  (\<open>continue\<close>); every error thrown inside the \<open>try\<close> is thrown again with the path.
\<close>

definition load_failed :: "string \<Rightarrow> string \<Rightarrow> exn" where
  "load_failed candidate msg =
     Error (''Failed to load config file '' @ [CHR 0x27] @ candidate @ [CHR 0x27] @ '': '' @ msg)"

definition load_candidate :: "runtime \<Rightarrow> string \<Rightarrow> (exn + ServerConfigFile \<times> string) option" where
  "load_candidate rt candidate =
     (case read_file rt candidate of
        None \<Rightarrow> None
      | Some raw \<Rightarrow>
          (case JSON_parse rt raw of
             Inl msg \<Rightarrow> Some (Inl (load_failed candidate msg))
           | Inr (JObject parsed) \<Rightarrow>
               Some (Inr (\<lparr>defaultSource = getString (get_prop parsed ''defaultSource''),
                           sources =
                             (case get_prop parsed ''sources'' of
                                Some (JObject srcs) \<Rightarrow> srcs
                              | _ \<Rightarrow> delete_prop (spread [] parsed) ''defaultSource'')\<rparr>,
                          candidate))
           | Inr _ \<Rightarrow>
               Some (Inl (load_failed candidate
                            (''Invalid config file: expected JSON object at '' @ candidate)))))"

fun first_candidate :: "runtime \<Rightarrow> string list \<Rightarrow> exn + (ServerConfigFile \<times> string) option" where
  "first_candidate rt [] = Inr None"
| "first_candidate rt (c # cs) =
     (case load_candidate rt c of
        None \<Rightarrow> first_candidate rt cs
      | Some (Inl e) \<Rightarrow> Inl e
      | Some (Inr r) \<Rightarrow> Inr (Some r))"

definition loadServerConfigFile :: "runtime \<Rightarrow> exn + (ServerConfigFile \<times> string) option" where
  "loadServerConfigFile rt =
     first_candidate rt
       ((if truthy (env rt ''MYSQL_MCP_CONFIG_PATH'')
            \<and> trim (shown (env rt ''MYSQL_MCP_CONFIG_PATH'')) \<noteq> []
         then [shown (env rt ''MYSQL_MCP_CONFIG_PATH'')] else [])
        @ [default_config_path rt])"

subsection \<open>The table of sources\<close>

text \<open>
  \<open>SOURCE_CONFIGS\<close> is an object made by \<open>{}\<close> and assignments \<open>sources[name] = c\<close>, or the
  literal \<open>{default: c}\<close>. An assignment to the name \<open>__proto__\<close> does not create an own
  property: it makes \<open>c\<close> the prototype of the table. \<open>proto\<close> is that prototype, when
  one was set; without it the prototype is \<open>Object.prototype\<close>.
\<close>

record SourceTable =
  own :: "(string \<times> SourceConfig) list"
  proto :: "SourceConfig option"

definition assign_source :: "SourceTable \<Rightarrow> string \<Rightarrow> SourceConfig \<Rightarrow> SourceTable" where
  "assign_source t k c =
     (if k = ''__proto__'' then t\<lparr>proto := Some c\<rparr>
      else t\<lparr>own := define_prop (own t) k c\<rparr>)"

text \<open>\<open>Object.keys(SOURCE_CONFIGS)\<close>.\<close>

definition source_names :: "SourceTable \<Rightarrow> string list" where
  "source_names t = map fst (own t)"

definition object_prototype_keys :: "string list" where
  "object_prototype_keys =
     [''constructor'', ''hasOwnProperty'', ''isPrototypeOf'', ''propertyIsEnumerable'',
      ''toLocaleString'', ''toString'', ''valueOf'', ''__proto__'', ''__defineGetter__'',
      ''__defineSetter__'', ''__lookupGetter__'', ''__lookupSetter__'']"

text \<open>
  \<open>SOURCE_CONFIGS[name]\<close>: a source, or a truthy value that is not a source and is found
  on the prototype chain, or \<open>undefined\<close>.
\<close>

datatype looked_up = Config SourceConfig | Inherited | Undefined

text \<open>The names the table inherits that are not sources.\<close>

definition inherited_names :: "SourceTable \<Rightarrow> string list" where
  "inherited_names t =
     (case proto t of
        None \<Rightarrow> object_prototype_keys
      | Some c \<Rightarrow> [''connection'', ''permissions''] @ remove1 ''__proto__'' object_prototype_keys)"

definition lookup_source :: "SourceTable \<Rightarrow> string \<Rightarrow> looked_up" where
  "lookup_source t name =
     (case map_of (own t) name of
        Some c \<Rightarrow> Config c
      | None \<Rightarrow>
          if name \<in> set (inherited_names t) then Inherited
          else if name = ''__proto__'' then (case proto t of Some c \<Rightarrow> Config c | None \<Rightarrow> Undefined)
          else Undefined)"

text \<open>The source made from one raw definition, in the body of the loop.\<close>

definition source_of_raw ::
  "runtime \<Rightarrow> ConnectionConfig \<Rightarrow> PermissionConfig \<Rightarrow> (string \<times> json) list \<Rightarrow> SourceConfig" where
  "source_of_raw rt baseConnection basePermissions sourceValue =
     (let rawConnection =
            (case get_prop sourceValue ''connection'' of
               Some (JObject c) \<Rightarrow> c
             | _ \<Rightarrow> sourceValue)
      in \<lparr>connection =
            \<lparr>host = nullish (getString (get_prop rawConnection ''host'')) (host baseConnection),
             user = nullish (getString (get_prop rawConnection ''user'')) (user baseConnection),
             password =
               nullish (getString (get_prop rawConnection ''password'')) (password baseConnection),
             port = nullish (getNumber rt (get_prop rawConnection ''port'')) (port baseConnection),
             database =
               (case getString (get_prop rawConnection ''database'') of
                  Some d \<Rightarrow> Some d
                | None \<Rightarrow> database baseConnection),
             waitForConnections =
               nullish (getBoolean (get_prop rawConnection ''waitForConnections''))
                 (waitForConnections baseConnection),
             connectionLimit =
               nullish (getNumber rt (get_prop rawConnection ''connectionLimit''))
                 (connectionLimit baseConnection),
             queueLimit =
               nullish (getNumber rt (get_prop rawConnection ''queueLimit''))
                 (queueLimit baseConnection)\<rparr>,
          permissions =
            normalizePermissionConfig basePermissions (get_prop sourceValue ''permissions'')\<rparr>)"

definition invalid_source :: "string \<Rightarrow> exn" where
  "invalid_source name =
     Error (''Invalid source '' @ [CHR 0x27] @ name @ [CHR 0x27] @ '': expected object'')"

fun build_sources ::
  "runtime \<Rightarrow> ConnectionConfig \<Rightarrow> PermissionConfig \<Rightarrow> (string \<times> json) list \<Rightarrow> SourceTable
     \<Rightarrow> exn + SourceTable" where
  "build_sources rt bc bp [] t = Inr t"
| "build_sources rt bc bp ((sourceName, sourceValue) # es) t =
     (case sourceValue of
        JObject v \<Rightarrow> build_sources rt bc bp es (assign_source t sourceName (source_of_raw rt bc bp v))
      | _ \<Rightarrow> Inl (invalid_source sourceName))"

text \<open>
  \<open>envParsed\<close>: \<open>undefined\<close> when \<open>MYSQL_SOURCES\<close> is unset or empty, else the parsed
  object, or the error thrown.
\<close>

definition parse_env_sources :: "runtime \<Rightarrow> exn + (string \<times> json) list option" where
  "parse_env_sources rt =
     (if truthy (env rt ''MYSQL_SOURCES'')
      then (case JSON_parse rt (shown (env rt ''MYSQL_SOURCES'')) of
              Inl msg \<Rightarrow> Inl (Error (''Invalid MYSQL_SOURCES JSON: '' @ msg))
            | Inr (JObject e) \<Rightarrow> Inr (Some e)
            | Inr _ \<Rightarrow>
                Inl (Error ''Invalid MYSQL_SOURCES: expected an object mapping sourceName -> config''))
      else Inr None)"

definition mergedRawSources ::
  "(string \<times> json) list option \<Rightarrow> (string \<times> json) list option \<Rightarrow> (string \<times> json) list" where
  "mergedRawSources fileParsed envParsed =
     spread (case fileParsed of Some f \<Rightarrow> f | None \<Rightarrow> [])
            (case envParsed of Some e \<Rightarrow> e | None \<Rightarrow> [])"

definition loadSourceConfigs :: "runtime \<Rightarrow> exn + SourceTable" where
  "loadSourceConfigs rt =
     (let basePermissions = loadPermissionConfig rt;
          baseConnection = loadDefaultConnectionConfig rt
      in case loadServerConfigFile rt of
           Inl e \<Rightarrow> Inl e
         | Inr fileConfig \<Rightarrow>
             (case parse_env_sources rt of
                Inl e \<Rightarrow> Inl e
              | Inr envParsed \<Rightarrow>
                  (let merged = mergedRawSources (map_option (sources \<circ> fst) fileConfig) envParsed
                   in if merged = []
                      then Inr \<lparr>own = [(''default'',
                                         \<lparr>connection = baseConnection,
                                          permissions = basePermissions\<rparr>)],
                                proto = None\<rparr>
                      else (case build_sources rt baseConnection basePermissions merged
                                   \<lparr>own = [], proto = None\<rparr> of
                              Inl e \<Rightarrow> Inl e
                            | Inr t \<Rightarrow>
                                if own t = []
                                then Inl (Error ''Invalid MYSQL_SOURCES: no sources provided'')
                                else Inr t))))"

text \<open>
  \<open>DEFAULT_SOURCE\<close>: \<open>process.env.DEFAULT_SOURCE || FILE_CONFIG?.defaultSource ||
  Object.keys(SOURCE_CONFIGS)[0]\<close>; an index past the end reads \<open>undefined\<close>.
\<close>

definition default_source :: "runtime \<Rightarrow> (ServerConfigFile \<times> string) option \<Rightarrow> SourceTable \<Rightarrow> string option" where
  "default_source rt file t =
     or_else (env rt ''DEFAULT_SOURCE'')
       (or_else (case file of Some (c, p) \<Rightarrow> defaultSource c | None \<Rightarrow> None)
          (case source_names t of [] \<Rightarrow> None | n # ns \<Rightarrow> Some n))"

section \<open>Resolving a source\<close>

definition unknown_source :: "string \<Rightarrow> SourceTable \<Rightarrow> exn" where
  "unknown_source name t =
     Error (''Unknown source '' @ [CHR 0x27] @ name @ [CHR 0x27] @ ''. Available sources: ''
              @ join '', '' (source_names t))"

text \<open>
  \<open>getSourceConfig\<close>, given the two module constants. A property key that is
  \<open>undefined\<close> reads the property named \<open>undefined\<close>.
\<close>

definition getSourceConfig ::
  "SourceTable \<Rightarrow> string option \<Rightarrow> string option \<Rightarrow> exn + (string \<times> looked_up)" where
  "getSourceConfig SOURCE_CONFIGS DEFAULT_SOURCE source =
     (let sourceName = shown (if truthy source \<and> trim (shown source) \<noteq> [] then source
                              else DEFAULT_SOURCE)
      in case lookup_source SOURCE_CONFIGS sourceName of
           Undefined \<Rightarrow> Inl (unknown_source sourceName SOURCE_CONFIGS)
         | config \<Rightarrow> Inr (sourceName, config))"

text \<open>
  \<open>getPool\<close>, up to the key of the pool it returns. Reading \<open>config.connection.database\<close>
  of a value that is not a source throws a \<open>TypeError\<close>.
\<close>

definition getPool ::
  "SourceTable \<Rightarrow> string option \<Rightarrow> string option \<Rightarrow> string option \<Rightarrow> exn + string" where
  "getPool SOURCE_CONFIGS DEFAULT_SOURCE source db =
     (case getSourceConfig SOURCE_CONFIGS DEFAULT_SOURCE source of
        Inl e \<Rightarrow> Inl e
      | Inr (sourceName, Config config) \<Rightarrow>
          Inr (sourceName @ ''::''
                 @ (let targetDatabase = or_else db (database (connection config))
                    in if truthy targetDatabase then shown targetDatabase else []))
      | Inr (sourceName, _) \<Rightarrow> Inl TypeError)"

section \<open>The query tool\<close>

text \<open>
  What the handler of \<open>mysql_query\<close> does with an invocation: it answers with a text and
  the error flag, or an error thrown on the way is caught and answered as a tool
  execution error, or it calls \<open>executeQuery(sql, database, sourceName)\<close> and answers
  with what comes back.
\<close>

datatype outcome =
    Reply string bool
  | ToolExecutionError exn
  | ExecuteQuery string "string option" string

text \<open>The loop over the references: the error of the first one that is not valid.\<close>

fun first_denied ::
  "(string \<Rightarrow> string \<Rightarrow> bool) \<Rightarrow> PermissionConfig \<Rightarrow> string option \<Rightarrow> string option
     \<Rightarrow> TableRef list \<Rightarrow> string option option" where
  "first_denied mm permissionConfig db cdb [] = None"
| "first_denied mm permissionConfig db cdb (r # refs) =
     (let effectiveDatabase = or_else (ref_database r) (or_else db cdb);
          tableValidation = validateTableAccess mm (ref_table r) permissionConfig effectiveDatabase
      in if \<not> valid tableValidation then Some (error tableValidation)
         else first_denied mm permissionConfig db cdb refs)"

definition mysql_query ::
  "runtime \<Rightarrow> SourceTable \<Rightarrow> string option \<Rightarrow> string \<Rightarrow> string option \<Rightarrow> string option \<Rightarrow> outcome" where
  "mysql_query rt SOURCE_CONFIGS DEFAULT_SOURCE sql db source =
     (case getSourceConfig SOURCE_CONFIGS DEFAULT_SOURCE source of
        Inl e \<Rightarrow> ToolExecutionError e
      | Inr (sourceName, Config config) \<Rightarrow>
          (let permissionConfig = permissions config;
               sqlValidation = validateSqlType sql permissionConfig
           in if \<not> valid sqlValidation
              then Reply (''Permission denied: '' @ shown (error sqlValidation)) True
              else (case first_denied (minimatch rt) permissionConfig db
                           (database (connection config)) (extractTableRefs sql) of
                      Some e \<Rightarrow> Reply (''Permission denied: '' @ shown e) True
                    | None \<Rightarrow> ExecuteQuery sql db sourceName))
      | Inr (sourceName, _) \<Rightarrow> ToolExecutionError TypeError)"

section \<open>Startup\<close>

text \<open>
  \<open>main\<close> up to \<open>server.connect\<close>: the process exits with status 1 after logging the
  error of the connection test, or it goes on to serve.
\<close>

datatype startup = Exit exn | Serving

fun test_sources :: "runtime \<Rightarrow> SourceTable \<Rightarrow> string option \<Rightarrow> string option list \<Rightarrow> exn option" where
  "test_sources rt SOURCE_CONFIGS DEFAULT_SOURCE [] = None"
| "test_sources rt SOURCE_CONFIGS DEFAULT_SOURCE (sourceName # rest) =
     (case getPool SOURCE_CONFIGS DEFAULT_SOURCE sourceName None of
        Inl e \<Rightarrow> Some e
      | Inr key \<Rightarrow>
          (case getConnection rt key of
             Some e \<Rightarrow> Some e
           | None \<Rightarrow> test_sources rt SOURCE_CONFIGS DEFAULT_SOURCE rest))"

definition main :: "runtime \<Rightarrow> SourceTable \<Rightarrow> string option \<Rightarrow> startup" where
  "main rt SOURCE_CONFIGS DEFAULT_SOURCE =
     (if env rt ''SKIP_DB_TEST'' = Some ''true'' then Serving
      else (let sourcesToTest =
                  (if env rt ''TEST_ALL_SOURCES'' = Some ''true''
                   then map Some (source_names SOURCE_CONFIGS)
                   else [DEFAULT_SOURCE])
            in case test_sources rt SOURCE_CONFIGS DEFAULT_SOURCE sourcesToTest of
                 Some e \<Rightarrow> Exit e
               | None \<Rightarrow> Serving))"

text \<open>
  The module from its first statement to \<open>server.connect\<close>: the two module constants
  are computed, an error thrown by either ends the process, then \<open>main\<close> runs.
\<close>

definition start :: "runtime \<Rightarrow> startup" where
  "start rt =
     (case loadServerConfigFile rt of
        Inl e \<Rightarrow> Exit e
      | Inr FILE_CONFIG \<Rightarrow>
          (case loadSourceConfigs rt of
             Inl e \<Rightarrow> Exit e
           | Inr SOURCE_CONFIGS \<Rightarrow>
               main rt SOURCE_CONFIGS (default_source rt FILE_CONFIG SOURCE_CONFIGS)))"

section \<open>Definitions used to state the properties\<close>


text \<open>A policy that allows reading the tables \<open>open_*\<close> only.\<close>

definition strict :: PermissionConfig where
  "strict = \<lparr>allowedSqlTypes = [''SELECT''], tablePatterns = [''open_*''],
             allowedDatabases = [''*''], allowMultiStatement = False, readOnly = True\<rparr>"



text \<open>
  Runtimes for the examples. \<open>bare\<close> has no environment variable and no file, and
  every connection succeeds. Its library functions answer as the libraries do at the
  arguments that the examples reach: \<open>parseInt\<close> at \<open>3306\<close>, and \<open>minimatch\<close> at the
  table names \<open>orders\<close> and \<open>secret_users\<close> with the patterns \<open>orders\<close> and \<open>open_*\<close>.
\<close>

definition bare :: runtime where
  "bare =
     \<lparr>env = (\<lambda>name. None),
      default_config_path = ''/srv/.mysql-mcp-server-secure/config.json'',
      read_file = (\<lambda>path. None),
      JSON_parse = (\<lambda>text. Inl ''Unexpected end of JSON input''),
      Number = (\<lambda>text. NaN),
      parseInt = (\<lambda>text. if text = ''3306'' then Num 3306 else NaN),
      minimatch = (\<lambda>text pattern. toUpperCase text = toUpperCase pattern),
      getConnection = (\<lambda>key. None)\<rparr>"

text \<open>A configuration file and an inline override that both define \<open>prod\<close>.\<close>

definition file_text :: string where
  \<open>file_text = ''{"prod":{"host":"file.example","user":"reader"}}''\<close>

definition inline_text :: string where
  \<open>inline_text = ''{"prod":{"host":"inline.example"}}''\<close>

definition both :: runtime where
  "both =
     bare\<lparr>env := (\<lambda>name. if name = ''MYSQL_SOURCES'' then Some inline_text else None),
          read_file := (\<lambda>path. if path = ''/srv/.mysql-mcp-server-secure/config.json''
                                then Some file_text else None),
          JSON_parse := (\<lambda>text.
             if text = file_text
             then Inr (JObject [(''prod'', JObject [(''host'', JString ''file.example''),
                                                    (''user'', JString ''reader'')])])
             else if text = inline_text
             then Inr (JObject [(''prod'', JObject [(''host'', JString ''inline.example'')])])
             else Inl ''Unexpected end of JSON input'')\<rparr>"

text \<open>
  The rule for one field of a source: the value found under the key when it has the type
  of the field, and the default otherwise. A number is a finite number, or a string that
  is not blank and converts to a finite number; a list of strings is given with the
  function applied to each of its strings.
\<close>

definition string_field :: "(string \<times> json) list \<Rightarrow> string \<Rightarrow> string \<Rightarrow> string" where
  "string_field obj k dflt = (case map_of obj k of Some (JString s) \<Rightarrow> s | _ \<Rightarrow> dflt)"

definition boolean_field :: "(string \<times> json) list \<Rightarrow> string \<Rightarrow> bool \<Rightarrow> bool" where
  "boolean_field obj k dflt = (case map_of obj k of Some (JBool b) \<Rightarrow> b | _ \<Rightarrow> dflt)"

definition number_field :: "runtime \<Rightarrow> (string \<times> json) list \<Rightarrow> string \<Rightarrow> number \<Rightarrow> number" where
  "number_field rt obj k dflt =
     (case map_of obj k of
        Some (JNumber (Num x)) \<Rightarrow> Num x
      | Some (JString s) \<Rightarrow>
          (if trim s = [] then dflt
           else (case Number rt s of Num x \<Rightarrow> Num x | _ \<Rightarrow> dflt))
      | _ \<Rightarrow> dflt)"

definition is_text :: "json \<Rightarrow> bool" where
  "is_text x = (case x of JString s \<Rightarrow> True | _ \<Rightarrow> False)"

definition text_of :: "json \<Rightarrow> string" where
  "text_of x = (case x of JString s \<Rightarrow> s | _ \<Rightarrow> [])"

definition strings_field ::
  "(string \<Rightarrow> string) \<Rightarrow> (string \<times> json) list \<Rightarrow> string \<Rightarrow> string list \<Rightarrow> string list" where
  "strings_field f obj k dflt =
     (case map_of obj k of
        Some (JArray xs) \<Rightarrow> if list_all is_text xs then map (\<lambda>x. f (text_of x)) xs else dflt
      | _ \<Rightarrow> dflt)"

text \<open>
  An inline override whose \<open>prod\<close> has a \<open>connection\<close> object, a user beside it and
  permissions, over the same file; the source that it resolves to.
\<close>

definition nested_text :: string where
  \<open>nested_text = ''{"prod":{"connection":{"host":"inline.example","port":3307,"queueLimit":"5"},"user":"ignored","permissions":{"allowedSqlTypes":[" select ","show"],"readOnly":false}}}''\<close>

definition nested_prod :: "(string \<times> json) list" where
  "nested_prod =
     [(''connection'', JObject [(''host'', JString ''inline.example''),
                                (''port'', JNumber (Num 3307)),
                                (''queueLimit'', JString ''5'')]),
      (''user'', JString ''ignored''),
      (''permissions'', JObject [(''allowedSqlTypes'', JArray [JString '' select '', JString ''show'']),
                                 (''readOnly'', JBool False)])]"

definition nested :: runtime where
  "nested =
     both\<lparr>env := (\<lambda>name. if name = ''MYSQL_SOURCES'' then Some nested_text else None),
          JSON_parse := (\<lambda>text.
             if text = file_text
             then Inr (JObject [(''prod'', JObject [(''host'', JString ''file.example''),
                                                    (''user'', JString ''reader'')])])
             else if text = nested_text
             then Inr (JObject [(''prod'', JObject nested_prod)])
             else Inl ''Unexpected end of JSON input''),
          Number := (\<lambda>text. if text = ''5'' then Num 5 else NaN)\<rparr>"

definition nested_source :: SourceConfig where
  "nested_source =
     \<lparr>connection =
        \<lparr>host = ''inline.example'', user = ''root'', password = [], port = Num 3307,
         database = None, waitForConnections = True, connectionLimit = Num 10,
         queueLimit = Num 5\<rparr>,
      permissions =
        \<lparr>allowedSqlTypes = [''SELECT'', ''SHOW''], tablePatterns = [''*''],
         allowedDatabases = [''*''], allowMultiStatement = False, readOnly = False\<rparr>\<rparr>"

text \<open>A source argument that is absent, empty or white space only.\<close>

definition unspecified :: "string option \<Rightarrow> bool" where
  "unspecified source = (case source of None \<Rightarrow> True | Some s \<Rightarrow> trim s = [])"

text \<open>A default source name that no source has, with and without the connection test.\<close>

definition skipping :: runtime where
  "skipping =
     bare\<lparr>env := (\<lambda>name. if name = ''SKIP_DB_TEST'' then Some ''true''
                         else if name = ''DEFAULT_SOURCE'' then Some ''nope'' else None)\<rparr>"

definition misnamed :: runtime where
  "misnamed = bare\<lparr>env := (\<lambda>name. if name = ''DEFAULT_SOURCE'' then Some ''nope'' else None)\<rparr>"

text \<open>The source made of the defaults, and the table that holds it alone.\<close>

definition base_source :: SourceConfig where
  "base_source =
     \<lparr>connection =
        \<lparr>host = ''127.0.0.1'', user = ''root'', password = [], port = Num 3306,
         database = None, waitForConnections = True, connectionLimit = Num 10,
         queueLimit = Num 0\<rparr>,
      permissions =
        \<lparr>allowedSqlTypes = [''SELECT''], tablePatterns = [''*''], allowedDatabases = [''*''],
         allowMultiStatement = False, readOnly = True\<rparr>\<rparr>"

definition default_only :: SourceTable where
  "default_only = \<lparr>own = [(''default'', base_source)], proto = None\<rparr>"

text \<open>The check that the loop of the query tool applies to one reference.\<close>

definition ref_check ::
  "(string \<Rightarrow> string \<Rightarrow> bool) \<Rightarrow> PermissionConfig \<Rightarrow> string option \<Rightarrow> string option
     \<Rightarrow> TableRef \<Rightarrow> Validation" where
  "ref_check mm p db cdb r =
     validateTableAccess mm (ref_table r) p (or_else (ref_database r) (or_else db cdb))"

text \<open>Tables with one source, \<open>default\<close>.\<close>

definition strict_only :: SourceTable where
  "strict_only =
     \<lparr>own = [(''default'', \<lparr>connection = connection base_source, permissions = strict\<rparr>)],
      proto = None\<rparr>"

definition orders_source :: SourceConfig where
  "orders_source =
     \<lparr>connection = connection base_source,
      permissions = strict\<lparr>tablePatterns := [''orders'']\<rparr>\<rparr>"

definition orders_only :: SourceTable where
  "orders_only = \<lparr>own = [(''default'', orders_source)], proto = None\<rparr>"

section \<open>Properties of the statement-type gate\<close>

lemmas text_defs = trim_def is_space_def toUpperCase_def upper_char_def

lemmas type_defs = multi_statement_def detectSqlType_def sqlTypeMatch_def sql_keywords_def
  starts_with_def read_only_types_def

lemma validateSqlType_cases:
  "validateSqlType sql p =
     (if \<not> allowMultiStatement p \<and> multi_statement (toUpperCase (trim sql))
      then \<lparr>valid = False, sqlType = None, error = Some multi_statement_error\<rparr>
      else if detectSqlType (toUpperCase (trim sql)) \<notin> set (allowedSqlTypes p)
              \<and> ''*'' \<notin> set (allowedSqlTypes p)
      then \<lparr>valid = False, sqlType = None,
             error = Some (not_allowed_error (detectSqlType (toUpperCase (trim sql)))
                            (allowedSqlTypes p))\<rparr>
      else if readOnly p \<and> detectSqlType (toUpperCase (trim sql)) \<notin> set read_only_types
      then \<lparr>valid = False, sqlType = None, error = Some read_only_error\<rparr>
      else \<lparr>valid = True, sqlType = Some (detectSqlType (toUpperCase (trim sql))),
             error = None\<rparr>)"
  by (simp add: validateSqlType_def Let_def)

text \<open>
  C1. Under a policy with \<open>readOnly = true\<close>, \<open>validateSqlType\<close> denies every query
  whose detected statement type is outside SELECT, EXPLAIN, SHOW, DESCRIBE, whatever
  \<open>allowedSqlTypes\<close> holds. Under \<open>{allowedSqlTypes: ["*"], readOnly: true}\<close> the query
  \<open>UPDATE t SET x=1\<close> is denied and \<open>SELECT 1\<close> is permitted, for any value of the other
  three fields.
\<close>

theorem read_only_override:
  "(readOnly p \<and> detectSqlType (toUpperCase (trim sql)) \<notin> set read_only_types
      \<longrightarrow> \<not> valid (validateSqlType sql p))
   \<and> \<not> valid (validateSqlType ''UPDATE t SET x=1''
          \<lparr>allowedSqlTypes = [''*''], tablePatterns = tp, allowedDatabases = ad,
           allowMultiStatement = m, readOnly = True\<rparr>)
   \<and> valid (validateSqlType ''SELECT 1''
          \<lparr>allowedSqlTypes = [''*''], tablePatterns = tp, allowedDatabases = ad,
           allowMultiStatement = m, readOnly = True\<rparr>)"
proof (intro conjI impI)
  assume "readOnly p \<and> detectSqlType (toUpperCase (trim sql)) \<notin> set read_only_types"
  then show "\<not> valid (validateSqlType sql p)"
    by (simp add: validateSqlType_cases)
next
  show "\<not> valid (validateSqlType ''UPDATE t SET x=1''
          \<lparr>allowedSqlTypes = [''*''], tablePatterns = tp, allowedDatabases = ad,
           allowMultiStatement = m, readOnly = True\<rparr>)"
    by (simp add: validateSqlType_def text_defs type_defs)
next
  show "valid (validateSqlType ''SELECT 1''
          \<lparr>allowedSqlTypes = [''*''], tablePatterns = tp, allowedDatabases = ad,
           allowMultiStatement = m, readOnly = True\<rparr>)"
    by (simp add: validateSqlType_def text_defs type_defs)
qed

theorem read_only_override_witness:
  "readOnly \<lparr>allowedSqlTypes = [''DELETE''], tablePatterns = [''*''],
             allowedDatabases = [''*''], allowMultiStatement = True, readOnly = True\<rparr>
   \<and> detectSqlType (toUpperCase (trim ''delete from t'')) = ''DELETE''
   \<and> ''DELETE'' \<notin> set read_only_types
   \<and> \<not> valid (validateSqlType ''delete from t''
         \<lparr>allowedSqlTypes = [''DELETE''], tablePatterns = [''*''],
          allowedDatabases = [''*''], allowMultiStatement = True, readOnly = True\<rparr>)"
  using read_only_override [of "\<lparr>allowedSqlTypes = [''DELETE''], tablePatterns = [''*''],
           allowedDatabases = [''*''], allowMultiStatement = True, readOnly = True\<rparr>"
           "''delete from t''"]
  by (simp add: text_defs type_defs)











lemma reasons_distinct:
  "multi_statement_error \<noteq> read_only_error"
  "not_allowed_error ty a \<noteq> multi_statement_error"
  "not_allowed_error ty a \<noteq> read_only_error"
  by (simp_all add: multi_statement_error_def read_only_error_def not_allowed_error_def)





lemma keyword_cases:
  assumes "k \<in> set sql_keywords"
  shows "k = ''SELECT'' \<or> k = ''INSERT'' \<or> k = ''UPDATE'' \<or> k = ''DELETE'' \<or> k = ''CREATE''
         \<or> k = ''DROP'' \<or> k = ''ALTER'' \<or> k = ''TRUNCATE'' \<or> k = ''REPLACE'' \<or> k = ''CALL''
         \<or> k = ''EXPLAIN'' \<or> k = ''SHOW'' \<or> k = ''DESCRIBE'' \<or> k = ''USE''"
  using assms unfolding sql_keywords_def by (simp only: set_simps insert_iff empty_iff simp_thms)

lemma sqlTypeMatch_prefix:
  assumes "k \<in> set sql_keywords"
  shows "sqlTypeMatch (k @ rest) = Some k"
  using keyword_cases [OF assms]
  by (elim disjE) (simp_all add: sqlTypeMatch_def sql_keywords_def starts_with_def)

lemma keyword_alone:
  assumes "k \<in> set sql_keywords"
  shows "toUpperCase (trim k) = k \<and> \<not> multi_statement k"
  using keyword_cases [OF assms]
  by (elim disjE) (simp_all add: text_defs multi_statement_def)



text \<open>
  C5. \<open>validateSqlType\<close> checks in the order multi-statement, type detection,
  allow-list, read-only, and the reason it returns is that of the first check that
  fails; the three reasons are different texts. A multi-statement text that is also
  outside the allow-list and unsafe is denied with the multi-statement reason; a type
  outside the allow-list is denied under a read-only policy with the allow-list reason.
\<close>

theorem check_order:
  "(let T = toUpperCase (trim sql); ty = detectSqlType T; allowed = allowedSqlTypes p;
        v = validateSqlType sql p;
        multi = (\<not> allowMultiStatement p \<and> multi_statement T);
        listed = (ty \<in> set allowed \<or> ''*'' \<in> set allowed);
        unsafe = (readOnly p \<and> ty \<notin> set read_only_types)
    in (multi \<longrightarrow> error v = Some multi_statement_error)
       \<and> (\<not> multi \<and> \<not> listed \<longrightarrow> error v = Some (not_allowed_error ty allowed))
       \<and> (\<not> multi \<and> listed \<and> unsafe \<longrightarrow> error v = Some read_only_error)
       \<and> (\<not> multi \<and> listed \<and> \<not> unsafe \<longrightarrow> valid v \<and> error v = None)
       \<and> (error v \<noteq> None \<longrightarrow> \<not> valid v)
       \<and> distinct [multi_statement_error, not_allowed_error ty allowed, read_only_error])
   \<and> error (validateSqlType ''UPDATE t SET x=1; DROP TABLE t'' strict)
        = Some multi_statement_error
   \<and> error (validateSqlType ''UPDATE t SET x=1'' strict)
        = Some (not_allowed_error ''UPDATE'' [''SELECT''])
   \<and> error (validateSqlType ''UPDATE t SET x=1'' (strict\<lparr>allowedSqlTypes := [''*'']\<rparr>))
        = Some read_only_error"
proof (intro conjI)
  show "let T = toUpperCase (trim sql); ty = detectSqlType T; allowed = allowedSqlTypes p;
        v = validateSqlType sql p;
        multi = (\<not> allowMultiStatement p \<and> multi_statement T);
        listed = (ty \<in> set allowed \<or> ''*'' \<in> set allowed);
        unsafe = (readOnly p \<and> ty \<notin> set read_only_types)
    in (multi \<longrightarrow> error v = Some multi_statement_error)
       \<and> (\<not> multi \<and> \<not> listed \<longrightarrow> error v = Some (not_allowed_error ty allowed))
       \<and> (\<not> multi \<and> listed \<and> unsafe \<longrightarrow> error v = Some read_only_error)
       \<and> (\<not> multi \<and> listed \<and> \<not> unsafe \<longrightarrow> valid v \<and> error v = None)
       \<and> (error v \<noteq> None \<longrightarrow> \<not> valid v)
       \<and> distinct [multi_statement_error, not_allowed_error ty allowed, read_only_error]"
    unfolding Let_def
    by (simp add: validateSqlType_cases reasons_distinct reasons_distinct [symmetric])
next
  show "error (validateSqlType ''UPDATE t SET x=1; DROP TABLE t'' strict)
        = Some multi_statement_error"
    by (simp add: strict_def validateSqlType_def text_defs type_defs)
next
  show "error (validateSqlType ''UPDATE t SET x=1'' strict)
        = Some (not_allowed_error ''UPDATE'' [''SELECT''])"
    by (simp add: strict_def validateSqlType_def text_defs type_defs)
next
  show "error (validateSqlType ''UPDATE t SET x=1'' (strict\<lparr>allowedSqlTypes := [''*'']\<rparr>))
        = Some read_only_error"
    by (simp add: strict_def validateSqlType_def text_defs type_defs)
qed

theorem check_order_witness:
  "validateSqlType ''delete from t; drop table t'' strict
     = \<lparr>valid = False, sqlType = None, error = Some multi_statement_error\<rparr>
   \<and> validateSqlType ''delete from t'' strict
     = \<lparr>valid = False, sqlType = None,
        error = Some ''SQL type 'DELETE' is not allowed. Allowed types: SELECT''\<rparr>
   \<and> validateSqlType ''delete from t'' (strict\<lparr>allowedSqlTypes := [''SELECT'', ''DELETE'']\<rparr>)
     = \<lparr>valid = False, sqlType = None, error = Some read_only_error\<rparr>
   \<and> validateSqlType ''show tables'' (strict\<lparr>allowedSqlTypes := [''*'']\<rparr>)
     = \<lparr>valid = True, sqlType = Some ''SHOW'', error = None\<rparr>"
  using check_order [of "''delete from t; drop table t''" strict]
    check_order [of "''delete from t''" strict]
    check_order [of "''delete from t''" "strict\<lparr>allowedSqlTypes := [''SELECT'', ''DELETE'']\<rparr>"]
    check_order [of "''show tables''" "strict\<lparr>allowedSqlTypes := [''*'']\<rparr>"]
  by (simp add: strict_def validateSqlType_def text_defs type_defs not_allowed_error_def)


text \<open>
  C9. A text whose trimmed upper-case form starts with a recognised key word is detected
  as that key word, whatever follows it: no token boundary is asked for. Unless the
  multi-statement check denies it, \<open>validateSqlType\<close> treats it as the key word: it is
  denied with the allow-list reason of the key word when the key word is not allowed, else
  denied with the read-only reason when the policy is read-only and the key word is not
  one of the four safe ones, else permitted with the key word as its type; the result is
  that of the key word alone. \<open>SELECTED x\<close> is a SELECT and \<open>DESCRIBEFOO\<close> is a DESCRIBE,
  and \<open>dropx\<close> is denied or permitted as a DROP.
\<close>

theorem keyword_prefix:
  "(k \<in> set sql_keywords \<and> toUpperCase (trim sql) = k @ rest \<longrightarrow>
      detectSqlType (toUpperCase (trim sql)) = k
      \<and> (allowMultiStatement p \<or> \<not> multi_statement (toUpperCase (trim sql)) \<longrightarrow>
           validateSqlType sql p = validateSqlType k p
           \<and> validateSqlType sql p =
               (if k \<notin> set (allowedSqlTypes p) \<and> ''*'' \<notin> set (allowedSqlTypes p)
                then \<lparr>valid = False, sqlType = None,
                       error = Some (not_allowed_error k (allowedSqlTypes p))\<rparr>
                else if readOnly p \<and> k \<notin> set read_only_types
                then \<lparr>valid = False, sqlType = None, error = Some read_only_error\<rparr>
                else \<lparr>valid = True, sqlType = Some k, error = None\<rparr>)))
   \<and> detectSqlType (toUpperCase (trim ''SELECTED x'')) = ''SELECT''
   \<and> detectSqlType (toUpperCase (trim ''DESCRIBEFOO'')) = ''DESCRIBE''
   \<and> validateSqlType ''SELECTED x'' strict
       = \<lparr>valid = True, sqlType = Some ''SELECT'', error = None\<rparr>
   \<and> validateSqlType ''DESCRIBEFOO'' strict
       = \<lparr>valid = False, sqlType = None,
          error = Some ''SQL type 'DESCRIBE' is not allowed. Allowed types: SELECT''\<rparr>
   \<and> validateSqlType ''DESCRIBEFOO'' (strict\<lparr>allowedSqlTypes := [''SELECT'', ''DESCRIBE'']\<rparr>)
       = \<lparr>valid = True, sqlType = Some ''DESCRIBE'', error = None\<rparr>
   \<and> validateSqlType ''dropx'' strict
       = \<lparr>valid = False, sqlType = None,
          error = Some ''SQL type 'DROP' is not allowed. Allowed types: SELECT''\<rparr>
   \<and> validateSqlType ''dropx'' (strict\<lparr>allowedSqlTypes := [''*'']\<rparr>)
       = \<lparr>valid = False, sqlType = None,
          error = Some ''Server is in read-only mode. Only SELECT queries are allowed''\<rparr>
   \<and> validateSqlType ''dropx'' (strict\<lparr>allowedSqlTypes := [''DROP''], readOnly := False\<rparr>)
       = \<lparr>valid = True, sqlType = Some ''DROP'', error = None\<rparr>"
proof (intro conjI impI)
  assume a: "k \<in> set sql_keywords \<and> toUpperCase (trim sql) = k @ rest"
  then show d: "detectSqlType (toUpperCase (trim sql)) = k"
    by (simp add: detectSqlType_def sqlTypeMatch_prefix)
  assume m: "allowMultiStatement p \<or> \<not> multi_statement (toUpperCase (trim sql))"
  have k: "detectSqlType k = k"
    using a sqlTypeMatch_prefix [of k "[]"] by (simp add: detectSqlType_def)
  have n: "\<not> (\<not> allowMultiStatement p \<and> multi_statement (toUpperCase (trim sql)))"
    using m by blast
  have n': "\<not> (\<not> allowMultiStatement p \<and> multi_statement k)"
    using a keyword_alone [of k] by simp
  have u: "toUpperCase (trim k) = k"
    using a keyword_alone [of k] by simp
  show "validateSqlType sql p = validateSqlType k p"
    unfolding validateSqlType_cases [of sql p] validateSqlType_cases [of k p]
    unfolding u d k if_not_P [OF n] if_not_P [OF n'] ..
  show "validateSqlType sql p =
               (if k \<notin> set (allowedSqlTypes p) \<and> ''*'' \<notin> set (allowedSqlTypes p)
                then \<lparr>valid = False, sqlType = None,
                       error = Some (not_allowed_error k (allowedSqlTypes p))\<rparr>
                else if readOnly p \<and> k \<notin> set read_only_types
                then \<lparr>valid = False, sqlType = None, error = Some read_only_error\<rparr>
                else \<lparr>valid = True, sqlType = Some k, error = None\<rparr>)"
    unfolding validateSqlType_cases [of sql p] d if_not_P [OF n] ..
next
  show "detectSqlType (toUpperCase (trim ''SELECTED x'')) = ''SELECT''"
    by (simp add: text_defs type_defs)
next
  show "detectSqlType (toUpperCase (trim ''DESCRIBEFOO'')) = ''DESCRIBE''"
    by (simp add: text_defs type_defs)
next
  show "validateSqlType ''SELECTED x'' strict
       = \<lparr>valid = True, sqlType = Some ''SELECT'', error = None\<rparr>"
    by (simp add: strict_def validateSqlType_def text_defs type_defs)
next
  show "validateSqlType ''DESCRIBEFOO'' strict
       = \<lparr>valid = False, sqlType = None,
          error = Some ''SQL type 'DESCRIBE' is not allowed. Allowed types: SELECT''\<rparr>"
    by (simp add: strict_def validateSqlType_def text_defs type_defs not_allowed_error_def)
next
  show "validateSqlType ''DESCRIBEFOO'' (strict\<lparr>allowedSqlTypes := [''SELECT'', ''DESCRIBE'']\<rparr>)
       = \<lparr>valid = True, sqlType = Some ''DESCRIBE'', error = None\<rparr>"
    by (simp add: strict_def validateSqlType_def text_defs type_defs)
next
  show "validateSqlType ''dropx'' strict
       = \<lparr>valid = False, sqlType = None,
          error = Some ''SQL type 'DROP' is not allowed. Allowed types: SELECT''\<rparr>"
    by (simp add: strict_def validateSqlType_def text_defs type_defs not_allowed_error_def)
next
  show "validateSqlType ''dropx'' (strict\<lparr>allowedSqlTypes := [''*'']\<rparr>)
       = \<lparr>valid = False, sqlType = None,
          error = Some ''Server is in read-only mode. Only SELECT queries are allowed''\<rparr>"
    by (simp add: strict_def validateSqlType_def text_defs type_defs read_only_error_def)
next
  show "validateSqlType ''dropx'' (strict\<lparr>allowedSqlTypes := [''DROP''], readOnly := False\<rparr>)
       = \<lparr>valid = True, sqlType = Some ''DROP'', error = None\<rparr>"
    by (simp add: strict_def validateSqlType_def text_defs type_defs)
qed

theorem keyword_prefix_witness:
  "''UPDATE'' \<in> set sql_keywords
   \<and> toUpperCase (trim ''  updated_rows x '') = ''UPDATE'' @ ''D_ROWS X''
   \<and> \<not> multi_statement (toUpperCase (trim ''  updated_rows x ''))
   \<and> validateSqlType ''  updated_rows x '' strict
       = \<lparr>valid = False, sqlType = None,
          error = Some ''SQL type 'UPDATE' is not allowed. Allowed types: SELECT''\<rparr>
   \<and> validateSqlType ''  updated_rows x '' (strict\<lparr>allowedSqlTypes := [''SELECT'', ''UPDATE'']\<rparr>)
       = \<lparr>valid = False, sqlType = None,
          error = Some ''Server is in read-only mode. Only SELECT queries are allowed''\<rparr>
   \<and> validateSqlType ''  updated_rows x ''
         (strict\<lparr>allowedSqlTypes := [''SELECT'', ''UPDATE''], readOnly := False\<rparr>)
       = \<lparr>valid = True, sqlType = Some ''UPDATE'', error = None\<rparr>"
  using keyword_prefix [of "''UPDATE''" "''  updated_rows x ''" "''D_ROWS X''" strict]
    keyword_prefix [of "''UPDATE''" "''  updated_rows x ''" "''D_ROWS X''"
      "strict\<lparr>allowedSqlTypes := [''SELECT'', ''UPDATE'']\<rparr>"]
    keyword_prefix [of "''UPDATE''" "''  updated_rows x ''" "''D_ROWS X''"
      "strict\<lparr>allowedSqlTypes := [''SELECT'', ''UPDATE''], readOnly := False\<rparr>"]
  by (simp add: strict_def validateSqlType_def text_defs type_defs not_allowed_error_def
        read_only_error_def)

text \<open>
  C7. \<open>matchesPattern\<close> is true exactly when some pattern of the list matches the text:
  the pattern \<open>*\<close>, which the function accepts for every text without asking the
  library, or a pattern that the library's case-insensitive glob match accepts. A list
  that contains \<open>*\<close> gives true for every text; the empty list gives false.
\<close>

theorem matchesPattern_any:
  "matchesPattern mm text patterns = (\<exists>p \<in> set patterns. p = ''*'' \<or> mm text p)
   \<and> (''*'' \<in> set patterns \<longrightarrow> matchesPattern mm text patterns)
   \<and> \<not> matchesPattern mm text []"
proof (intro conjI impI)
  show some: "matchesPattern mm text patterns
                = (\<exists>p \<in> set patterns. p = ''*'' \<or> mm text p)"
  proof (induction patterns)
    case Nil
    show ?case by (simp add: matchesPattern_def)
  next
    case (Cons p ps)
    have "matchesPattern mm text (p # ps)
            = ((p = ''*'' \<or> mm text p) \<or> matchesPattern mm text ps)"
      by (simp add: matchesPattern_def)
    with Cons.IH show ?case by simp
  qed
  show "\<not> matchesPattern mm text []"
    by (simp add: matchesPattern_def)
  assume "''*'' \<in> set patterns"
  then have "\<exists>p \<in> set patterns. p = ''*'' \<or> mm text p"
    by blast
  then show "matchesPattern mm text patterns"
    by (simp only: some)
qed

theorem matchesPattern_any_witness:
  "''*'' \<in> set [''open_*'', ''*'']
   \<and> matchesPattern (\<lambda>t p. False) ''.secret/users'' [''open_*'', ''*'']
   \<and> \<not> matchesPattern (\<lambda>t p. False) ''.secret/users'' [''open_*'']"
  using matchesPattern_any [of "\<lambda>t p. False" "''.secret/users''" "[''open_*'', ''*'']"]
  by (simp add: matchesPattern_def)

section \<open>Properties of the configuration\<close>

lemma map_of_insert_prop:
  "map_of ps k = None \<Longrightarrow> map_of (insert_prop k v ps) = (map_of ps)(k \<mapsto> v)"
  by (induction ps) (auto split: if_splits)

lemma map_of_replace:
  "map_of (map (\<lambda>(k', v'). if k' = k then (k', v) else (k', v')) ps) k'
     = (if k' = k \<and> map_of ps k \<noteq> None then Some v else map_of ps k')"
  by (induction ps) auto

lemma map_of_define_prop: "map_of (define_prop ps k v) = (map_of ps)(k \<mapsto> v)"
proof (cases "map_of ps k")
  case None
  then show ?thesis by (simp add: define_prop_def map_of_insert_prop)
next
  case (Some a)
  then show ?thesis by (auto simp: define_prop_def map_of_replace)
qed

lemma map_of_fold_define:
  "map_of (fold (\<lambda>(k, v) acc. define_prop acc k v) b acc) = map_of acc ++ map_of (rev b)"
proof (induction b arbitrary: acc)
  case Nil
  then show ?case by simp
next
  case (Cons x b)
  obtain k v where x: "x = (k, v)" by (cases x)
  have "map_of (fold (\<lambda>(k, v) acc. define_prop acc k v) (x # b) acc)
          = (map_of acc)(k \<mapsto> v) ++ map_of (rev b)"
    by (simp only: x fold_simps prod.case Cons.IH map_of_define_prop)
  also have "\<dots> = map_of acc ++ map_of (rev (x # b))"
    by (rule ext) (simp add: x map_add_def split: option.splits)
  finally show ?case .
qed

lemma map_of_rev_distinct: "distinct (map fst b) \<Longrightarrow> map_of (rev b) = map_of b"
proof (rule map_of_inject_set [THEN iffD2])
  assume d: "distinct (map fst b)"
  show "distinct (map fst (rev b))"
    using d by (simp add: rev_map [symmetric])
  show "distinct (map fst b)" by (rule d)
  show "set (rev b) = set b" by simp
qed


lemma keys_insert_prop: "fst ` set (insert_prop k v ps) = insert k (fst ` set ps)"
proof (induction ps)
  case Nil
  then show ?case by simp
next
  case (Cons p ps)
  obtain k' v' where p: "p = (k', v')" by (cases p)
  show ?case
    using Cons.IH by (cases "comes_before k k'") (auto simp: p)
qed

lemma distinct_insert_prop:
  "distinct (map fst ps) \<Longrightarrow> k \<notin> fst ` set ps \<Longrightarrow> distinct (map fst (insert_prop k v ps))"
proof (induction ps)
  case Nil
  then show ?case by simp
next
  case (Cons p ps)
  obtain k' v' where p: "p = (k', v')" by (cases p)
  show ?case
    using Cons by (cases "comes_before k k'") (auto simp: p keys_insert_prop)
qed

lemma keys_replace:
  "map (fst \<circ> (\<lambda>(k', v'). if k' = k then (k', v) else (k', v'))) ps = map fst ps"
  by (induction ps) auto

lemma distinct_define_prop:
  assumes "distinct (map fst ps)"
  shows "distinct (map fst (define_prop ps k v))"
proof (cases "map_of ps k")
  case None
  then have "k \<notin> fst ` set ps"
    by (simp add: map_of_eq_None_iff)
  with assms None show ?thesis
    by (simp add: define_prop_def distinct_insert_prop)
next
  case (Some a)
  with assms show ?thesis
    by (simp add: define_prop_def keys_replace)
qed

lemma distinct_fold_define:
  "distinct (map fst acc) \<Longrightarrow>
   distinct (map fst (fold (\<lambda>(k, v) acc. define_prop acc k v) b acc))"
proof (induction b arbitrary: acc)
  case Nil
  then show ?case by simp
next
  case (Cons x b)
  obtain k v where x: "x = (k, v)" by (cases x)
  show ?case
    using Cons.prems by (simp add: x Cons.IH distinct_define_prop)
qed

lemma distinct_spread: "distinct (map fst (spread a b))"
  by (simp add: spread_def distinct_fold_define)



lemma own_assign_source:
  "map_of (own (assign_source t k c)) n
     = (if n = k \<and> k \<noteq> ''__proto__'' then Some c else map_of (own t) n)"
  by (simp add: assign_source_def map_of_define_prop)

lemma proto_assign_source:
  "proto (assign_source t k c) = (if k = ''__proto__'' then Some c else proto t)"
  by (simp add: assign_source_def)

lemma build_sources_other:
  "build_sources rt bc bp es t = Inr t' \<Longrightarrow> n \<notin> fst ` set es \<or> n = ''__proto__'' \<Longrightarrow>
   map_of (own t') n = map_of (own t) n"
proof (induction es arbitrary: t)
  case Nil
  then show ?case by simp
next
  case (Cons x es)
  obtain k sv where x: "x = (k, sv)" by (cases x)
  from Cons.prems(1) obtain v where sv: "sv = JObject v"
    by (cases sv) (simp_all add: x)
  have "build_sources rt bc bp es (assign_source t k (source_of_raw rt bc bp v)) = Inr t'"
    using Cons.prems(1) by (simp add: x sv)
  moreover have "n \<notin> fst ` set es \<or> n = ''__proto__''"
    using Cons.prems(2) by auto
  ultimately have "map_of (own t') n
      = map_of (own (assign_source t k (source_of_raw rt bc bp v))) n"
    by (rule Cons.IH)
  also have "\<dots> = map_of (own t) n"
    using Cons.prems(2) by (auto simp: own_assign_source x)
  finally show ?case .
qed

lemma build_sources_own:
  "build_sources rt bc bp es t = Inr t' \<Longrightarrow> distinct (map fst es) \<Longrightarrow>
   map_of es n = Some (JObject v) \<Longrightarrow> n \<noteq> ''__proto__'' \<Longrightarrow>
   map_of (own t') n = Some (source_of_raw rt bc bp v)"
proof (induction es arbitrary: t)
  case Nil
  then show ?case by simp
next
  case (Cons x es)
  obtain k sv where x: "x = (k, sv)" by (cases x)
  from Cons.prems(1) obtain v0 where sv: "sv = JObject v0"
    by (cases sv) (simp_all add: x)
  let ?t1 = "assign_source t k (source_of_raw rt bc bp v0)"
  have b: "build_sources rt bc bp es ?t1 = Inr t'"
    using Cons.prems(1) by (simp add: x sv)
  have d: "distinct (map fst es)" and k: "k \<notin> fst ` set es"
    using Cons.prems(2) by (simp_all add: x)
  show ?case
  proof (cases "n = k")
    case True
    then have "v0 = v"
      using Cons.prems(3) by (simp add: x sv)
    moreover have "map_of (own t') n = map_of (own ?t1) n"
      using b k True by (intro build_sources_other) auto
    ultimately show ?thesis
      using True Cons.prems(4) by (simp add: own_assign_source)
  next
    case False
    then have "map_of es n = Some (JObject v)"
      using Cons.prems(3) by (simp add: x)
    with b d Cons.prems(4) show ?thesis
      by (intro Cons.IH)
  qed
qed

lemma build_sources_proto_other:
  "build_sources rt bc bp es t = Inr t' \<Longrightarrow> ''__proto__'' \<notin> fst ` set es \<Longrightarrow>
   proto t' = proto t"
proof (induction es arbitrary: t)
  case Nil
  then show ?case by simp
next
  case (Cons x es)
  obtain k sv where x: "x = (k, sv)" by (cases x)
  from Cons.prems(1) obtain v where sv: "sv = JObject v"
    by (cases sv) (simp_all add: x)
  have "build_sources rt bc bp es (assign_source t k (source_of_raw rt bc bp v)) = Inr t'"
    using Cons.prems(1) by (simp add: x sv)
  moreover have "''__proto__'' \<notin> fst ` set es"
    using Cons.prems(2) by auto
  ultimately have "proto t' = proto (assign_source t k (source_of_raw rt bc bp v))"
    by (rule Cons.IH)
  also have "\<dots> = proto t"
    using Cons.prems(2) by (auto simp: proto_assign_source x)
  finally show ?case .
qed

lemma build_sources_proto:
  "build_sources rt bc bp es t = Inr t' \<Longrightarrow> distinct (map fst es) \<Longrightarrow>
   map_of es ''__proto__'' = Some (JObject v) \<Longrightarrow>
   proto t' = Some (source_of_raw rt bc bp v)"
proof (induction es arbitrary: t)
  case Nil
  then show ?case by simp
next
  case (Cons x es)
  obtain k sv where x: "x = (k, sv)" by (cases x)
  from Cons.prems(1) obtain v0 where sv: "sv = JObject v0"
    by (cases sv) (simp_all add: x)
  let ?t1 = "assign_source t k (source_of_raw rt bc bp v0)"
  have b: "build_sources rt bc bp es ?t1 = Inr t'"
    using Cons.prems(1) by (simp add: x sv)
  have d: "distinct (map fst es)" and k: "k \<notin> fst ` set es"
    using Cons.prems(2) by (simp_all add: x)
  show ?case
  proof (cases "k = ''__proto__''")
    case True
    then have "v0 = v"
      using Cons.prems(3) by (simp add: x sv)
    moreover have "proto t' = proto ?t1"
      using b k True by (intro build_sources_proto_other) auto
    ultimately show ?thesis
      using True by (simp add: proto_assign_source)
  next
    case False
    then have "map_of es ''__proto__'' = Some (JObject v)"
      using Cons.prems(3) by (simp add: x)
    with b d show ?thesis
      by (intro Cons.IH)
  qed
qed

lemma build_sources_lookup:
  assumes "build_sources rt bc bp es \<lparr>own = [], proto = None\<rparr> = Inr t'"
    and "distinct (map fst es)"
    and "map_of es n = Some (JObject v)"
  shows "lookup_source t' n = Config (source_of_raw rt bc bp v)"
proof (cases "n = ''__proto__''")
  case False
  with assms have "map_of (own t') n = Some (source_of_raw rt bc bp v)"
    by (intro build_sources_own)
  then show ?thesis
    by (simp add: lookup_source_def)
next
  case True
  have "map_of (own t') n = map_of (own \<lparr>own = [], proto = None\<rparr>) n"
    using assms(1) True by (intro build_sources_other) auto
  then have o: "map_of (own t') ''__proto__'' = None"
    using True by simp
  have p: "proto t' = Some (source_of_raw rt bc bp v)"
    using assms True by (intro build_sources_proto) auto
  show ?thesis
    using True by (simp add: lookup_source_def o p inherited_names_def object_prototype_keys_def)
qed

lemmas object_defs = spread_def define_prop_def delete_prop_def get_prop_def comes_before_def
  is_array_index_def is_digit_def

lemmas read_defs = isPlainObject_def getString_def getNumber_def getBoolean_def
  getStringArray_def nullish_def isFinite_def truthy_def shown_def or_else_def

lemmas load_defs = loadSourceConfigs_def loadServerConfigFile_def load_candidate_def
  parse_env_sources_def mergedRawSources_def loadPermissionConfig_def
  loadDefaultConnectionConfig_def source_of_raw_def normalizePermissionConfig_def
  assign_source_def

lemma both_file:
  "loadServerConfigFile both
     = Inr (Some (\<lparr>defaultSource = None,
                    sources = [(''prod'', JObject [(''host'', JString ''file.example''),
                                                   (''user'', JString ''reader'')])]\<rparr>,
                  ''/srv/.mysql-mcp-server-secure/config.json''))"
  by (simp add: both_def bare_def file_text_def inline_text_def load_defs object_defs read_defs)

lemma both_env:
  "parse_env_sources both
     = Inr (Some [(''prod'', JObject [(''host'', JString ''inline.example'')])])"
  by (simp add: both_def bare_def file_text_def inline_text_def load_defs object_defs read_defs)

lemma both_sources:
  "loadSourceConfigs both
     = Inr \<lparr>own = [(''prod'',
                    \<lparr>connection =
                       \<lparr>host = ''inline.example'', user = ''root'', password = [],
                        port = Num 3306, database = None, waitForConnections = True,
                        connectionLimit = Num 10, queueLimit = Num 0\<rparr>,
                     permissions =
                       \<lparr>allowedSqlTypes = [''SELECT''], tablePatterns = [''*''],
                        allowedDatabases = [''*''], allowMultiStatement = False,
                        readOnly = True\<rparr>\<rparr>)],
            proto = None\<rparr>"
  unfolding loadSourceConfigs_def both_file both_env
  by (simp add: both_def bare_def load_defs object_defs read_defs)

lemma map_of_merged_inline:
  assumes "distinct (map fst e)" and "map_of e n = Some x"
  shows "map_of (mergedRawSources fp (Some e)) n = Some x"
proof -
  have "map_of (mergedRawSources fp (Some e)) n
          = (map_of (spread (case fp of Some f \<Rightarrow> f | None \<Rightarrow> []) e)) n"
    by (simp add: mergedRawSources_def)
  also have "\<dots> = Some x"
    using assms by (simp add: spread_def map_of_fold_define map_of_rev_distinct)
  finally show ?thesis .
qed

lemma loaded_inline_source:
  assumes "loadSourceConfigs rt = Inr t"
    and "parse_env_sources rt = Inr (Some e)"
    and "distinct (map fst e)"
    and "map_of e n = Some (JObject v)"
  shows "lookup_source t n
           = Config (source_of_raw rt (loadDefaultConnectionConfig rt)
                       (loadPermissionConfig rt) v)"
proof -
  obtain fc where fc: "loadServerConfigFile rt = Inr fc"
    using assms(1) by (cases "loadServerConfigFile rt") (simp_all add: loadSourceConfigs_def)
  define merged where "merged = mergedRawSources (map_option (sources \<circ> fst) fc) (Some e)"
  have m: "map_of merged n = Some (JObject v)"
    unfolding merged_def using assms(3,4) by (rule map_of_merged_inline)
  then have ne: "merged \<noteq> []"
    by auto
  have d: "distinct (map fst merged)"
    by (simp add: merged_def mergedRawSources_def distinct_spread)
  let ?b = "build_sources rt (loadDefaultConnectionConfig rt) (loadPermissionConfig rt) merged
              \<lparr>own = [], proto = None\<rparr>"
  have l: "loadSourceConfigs rt
             = (case ?b of Inl e \<Rightarrow> Inl e
                | Inr t \<Rightarrow> if own t = []
                           then Inl (Error ''Invalid MYSQL_SOURCES: no sources provided'')
                           else Inr t)"
    using ne by (simp add: loadSourceConfigs_def fc assms(2) merged_def Let_def)
  have "?b = Inr t"
    using assms(1) unfolding l by (cases ?b) (simp_all split: if_splits)
  then show ?thesis
    using d m by (rule build_sources_lookup)
qed

lemma string_field_read: "nullish (getString (get_prop obj k)) d = string_field obj k d"
  by (simp add: nullish_def getString_def get_prop_def string_field_def
        split: option.splits json.splits)

lemma boolean_field_read: "nullish (getBoolean (get_prop obj k)) d = boolean_field obj k d"
  by (simp add: nullish_def getBoolean_def get_prop_def boolean_field_def
        split: option.splits json.splits)

lemma number_field_read: "nullish (getNumber rt (get_prop obj k)) d = number_field rt obj k d"
  by (simp add: nullish_def getNumber_def get_prop_def number_field_def isFinite_def
        split: option.splits json.splits number.splits)

lemma string_items_texts:
  "string_items xs = (if list_all is_text xs then Some (map text_of xs) else None)"
  by (induction xs rule: string_items.induct) (simp_all add: is_text_def text_of_def)

lemma strings_field_read:
  "nullish (map_option (map f) (getStringArray (get_prop obj k))) d = strings_field f obj k d"
  by (simp add: nullish_def getStringArray_def get_prop_def strings_field_def
        string_items_texts comp_def split: option.splits json.splits)

lemma source_of_raw_fields:
  assumes "rc = (case map_of v ''connection'' of Some (JObject c) \<Rightarrow> c | _ \<Rightarrow> v)"
  shows "connection (source_of_raw rt bc bp v)
           = \<lparr>host = string_field rc ''host'' (host bc),
              user = string_field rc ''user'' (user bc),
              password = string_field rc ''password'' (password bc),
              port = number_field rt rc ''port'' (port bc),
              database = (case map_of rc ''database'' of
                            Some (JString s) \<Rightarrow> Some s | _ \<Rightarrow> database bc),
              waitForConnections =
                boolean_field rc ''waitForConnections'' (waitForConnections bc),
              connectionLimit = number_field rt rc ''connectionLimit'' (connectionLimit bc),
              queueLimit = number_field rt rc ''queueLimit'' (queueLimit bc)\<rparr>"
proof -
  have rc: "(case get_prop v ''connection'' of Some (JObject c) \<Rightarrow> c | _ \<Rightarrow> v) = rc"
    by (simp add: assms get_prop_def)
  have db: "(case getString (get_prop rc ''database'') of Some d \<Rightarrow> Some d
             | None \<Rightarrow> database bc)
            = (case map_of rc ''database'' of Some (JString s) \<Rightarrow> Some s | _ \<Rightarrow> database bc)"
    by (simp add: getString_def get_prop_def split: option.splits json.splits)
  show ?thesis
    unfolding source_of_raw_def Let_def rc
    by (simp add: string_field_read boolean_field_read number_field_read db)
qed

lemma source_of_raw_permissions:
  "permissions (source_of_raw rt bc bp v)
     = (case map_of v ''permissions'' of
          Some (JObject ov) \<Rightarrow>
            \<lparr>allowedSqlTypes =
               strings_field (\<lambda>s. toUpperCase (trim s)) ov ''allowedSqlTypes'' (allowedSqlTypes bp),
             tablePatterns = strings_field trim ov ''tablePatterns'' (tablePatterns bp),
             allowedDatabases = strings_field trim ov ''allowedDatabases'' (allowedDatabases bp),
             allowMultiStatement =
               boolean_field ov ''allowMultiStatement'' (allowMultiStatement bp),
             readOnly = boolean_field ov ''readOnly'' (readOnly bp)\<rparr>
        | _ \<Rightarrow> bp)"
  by (simp add: source_of_raw_def Let_def normalizePermissionConfig_def get_prop_def [of v]
        strings_field_read boolean_field_read split: option.splits json.splits)

text \<open>
  C3, as amended. When loading succeeds, the source resolved for a name that the inline
  override defines is made from the inline definition and the base defaults alone. Each
  connection field is read in the \<open>connection\<close> object of the inline definition when that
  is an object and in the inline definition itself otherwise; each permission field is
  read in its \<open>permissions\<close> object, and without such an object the permissions are the
  base permissions. A field takes the value found there when it has the type of the
  field (a string; a boolean; a finite number or a string that is not blank and converts
  to one; a list of strings, each trimmed and, for \<open>allowedSqlTypes\<close>, upper-cased) and
  the base default otherwise. What the file defines under that name is not read.
\<close>

theorem inline_definition_decides:
  assumes "loadSourceConfigs rt = Inr t"
    and "parse_env_sources rt = Inr (Some e)"
    and "distinct (map fst e)"
    and "map_of e n = Some (JObject v)"
    and "rc = (case map_of v ''connection'' of Some (JObject c) \<Rightarrow> c | _ \<Rightarrow> v)"
    and "bc = loadDefaultConnectionConfig rt"
    and "bp = loadPermissionConfig rt"
  shows "\<exists>c. lookup_source t n = Config c
           \<and> host (connection c) = string_field rc ''host'' (host bc)
           \<and> user (connection c) = string_field rc ''user'' (user bc)
           \<and> password (connection c) = string_field rc ''password'' (password bc)
           \<and> port (connection c) = number_field rt rc ''port'' (port bc)
           \<and> database (connection c)
               = (case map_of rc ''database'' of
                    Some (JString s) \<Rightarrow> Some s | _ \<Rightarrow> database bc)
           \<and> waitForConnections (connection c)
               = boolean_field rc ''waitForConnections'' (waitForConnections bc)
           \<and> connectionLimit (connection c)
               = number_field rt rc ''connectionLimit'' (connectionLimit bc)
           \<and> queueLimit (connection c) = number_field rt rc ''queueLimit'' (queueLimit bc)
           \<and> (case map_of v ''permissions'' of
                 Some (JObject ov) \<Rightarrow>
                   allowedSqlTypes (permissions c)
                     = strings_field (\<lambda>s. toUpperCase (trim s)) ov ''allowedSqlTypes''
                         (allowedSqlTypes bp)
                   \<and> tablePatterns (permissions c)
                     = strings_field trim ov ''tablePatterns'' (tablePatterns bp)
                   \<and> allowedDatabases (permissions c)
                     = strings_field trim ov ''allowedDatabases'' (allowedDatabases bp)
                   \<and> allowMultiStatement (permissions c)
                     = boolean_field ov ''allowMultiStatement'' (allowMultiStatement bp)
                   \<and> readOnly (permissions c) = boolean_field ov ''readOnly'' (readOnly bp)
               | _ \<Rightarrow> permissions c = bp)"
proof -
  let ?c = "source_of_raw rt bc bp v"
  have l: "lookup_source t n = Config ?c"
    unfolding assms(6,7) using assms(1-4) by (rule loaded_inline_source)
  have c: "connection ?c
           = \<lparr>host = string_field rc ''host'' (host bc),
              user = string_field rc ''user'' (user bc),
              password = string_field rc ''password'' (password bc),
              port = number_field rt rc ''port'' (port bc),
              database = (case map_of rc ''database'' of
                            Some (JString s) \<Rightarrow> Some s | _ \<Rightarrow> database bc),
              waitForConnections =
                boolean_field rc ''waitForConnections'' (waitForConnections bc),
              connectionLimit = number_field rt rc ''connectionLimit'' (connectionLimit bc),
              queueLimit = number_field rt rc ''queueLimit'' (queueLimit bc)\<rparr>"
    using assms(5) by (rule source_of_raw_fields)
  have p: "case map_of v ''permissions'' of
                 Some (JObject ov) \<Rightarrow>
                   allowedSqlTypes (permissions ?c)
                     = strings_field (\<lambda>s. toUpperCase (trim s)) ov ''allowedSqlTypes''
                         (allowedSqlTypes bp)
                   \<and> tablePatterns (permissions ?c)
                     = strings_field trim ov ''tablePatterns'' (tablePatterns bp)
                   \<and> allowedDatabases (permissions ?c)
                     = strings_field trim ov ''allowedDatabases'' (allowedDatabases bp)
                   \<and> allowMultiStatement (permissions ?c)
                     = boolean_field ov ''allowMultiStatement'' (allowMultiStatement bp)
                   \<and> readOnly (permissions ?c) = boolean_field ov ''readOnly'' (readOnly bp)
               | _ \<Rightarrow> permissions ?c = bp"
    by (simp add: source_of_raw_permissions split: option.splits json.splits)
  show ?thesis
  proof (intro exI conjI)
    show "lookup_source t n = Config ?c" by (rule l)
    show "case map_of v ''permissions'' of
                 Some (JObject ov) \<Rightarrow>
                   allowedSqlTypes (permissions ?c)
                     = strings_field (\<lambda>s. toUpperCase (trim s)) ov ''allowedSqlTypes''
                         (allowedSqlTypes bp)
                   \<and> tablePatterns (permissions ?c)
                     = strings_field trim ov ''tablePatterns'' (tablePatterns bp)
                   \<and> allowedDatabases (permissions ?c)
                     = strings_field trim ov ''allowedDatabases'' (allowedDatabases bp)
                   \<and> allowMultiStatement (permissions ?c)
                     = boolean_field ov ''allowMultiStatement'' (allowMultiStatement bp)
                   \<and> readOnly (permissions ?c) = boolean_field ov ''readOnly'' (readOnly bp)
               | _ \<Rightarrow> permissions ?c = bp"
      by (rule p)
  qed (simp_all add: c)
qed

lemma nested_file:
  "loadServerConfigFile nested
     = Inr (Some (\<lparr>defaultSource = None,
                    sources = [(''prod'', JObject [(''host'', JString ''file.example''),
                                                   (''user'', JString ''reader'')])]\<rparr>,
                  ''/srv/.mysql-mcp-server-secure/config.json''))"
  by (simp add: nested_def both_def bare_def file_text_def nested_text_def load_defs
        object_defs read_defs)

lemma nested_env: "parse_env_sources nested = Inr (Some [(''prod'', JObject nested_prod)])"
  by (simp add: nested_def both_def bare_def file_text_def nested_text_def load_defs
        object_defs read_defs)

lemma nested_sources:
  "loadSourceConfigs nested = Inr \<lparr>own = [(''prod'', nested_source)], proto = None\<rparr>"
  unfolding loadSourceConfigs_def nested_file nested_env
  by (simp add: nested_def both_def bare_def nested_prod_def nested_source_def load_defs
        object_defs read_defs text_defs)

lemmas field_defs = string_field_def boolean_field_def number_field_def strings_field_def
  is_text_def text_of_def

theorem inline_definition_decides_witness:
  "loadServerConfigFile nested
     = Inr (Some (\<lparr>defaultSource = None,
                    sources = [(''prod'', JObject [(''host'', JString ''file.example''),
                                                   (''user'', JString ''reader'')])]\<rparr>,
                  ''/srv/.mysql-mcp-server-secure/config.json''))
   \<and> parse_env_sources nested = Inr (Some [(''prod'', JObject nested_prod)])
   \<and> map_of nested_prod ''user'' = Some (JString ''ignored'')
   \<and> loadSourceConfigs nested = Inr \<lparr>own = [(''prod'', nested_source)], proto = None\<rparr>
   \<and> (\<exists>c. lookup_source \<lparr>own = [(''prod'', nested_source)], proto = None\<rparr> ''prod'' = Config c
          \<and> host (connection c) = ''inline.example''
          \<and> user (connection c) = ''root''
          \<and> password (connection c) = []
          \<and> port (connection c) = Num 3307
          \<and> database (connection c) = None
          \<and> waitForConnections (connection c) = True
          \<and> connectionLimit (connection c) = Num 10
          \<and> queueLimit (connection c) = Num 5
          \<and> allowedSqlTypes (permissions c) = [''SELECT'', ''SHOW'']
          \<and> tablePatterns (permissions c) = [''*'']
          \<and> allowedDatabases (permissions c) = [''*'']
          \<and> allowMultiStatement (permissions c) = False
          \<and> readOnly (permissions c) = False)"
proof -
  have d: "distinct (map fst [(''prod'', JObject nested_prod)])"
    by simp
  have n: "map_of [(''prod'', JObject nested_prod)] ''prod'' = Some (JObject nested_prod)"
    by simp
  have rc: "[(''host'', JString ''inline.example''), (''port'', JNumber (Num 3307)),
             (''queueLimit'', JString ''5'')]
            = (case map_of nested_prod ''connection'' of
                 Some (JObject c) \<Rightarrow> c | _ \<Rightarrow> nested_prod)"
    by (simp add: nested_prod_def)
  have p: "map_of nested_prod ''permissions''
             = Some (JObject [(''allowedSqlTypes'', JArray [JString '' select '', JString ''show'']),
                              (''readOnly'', JBool False)])"
    by (simp add: nested_prod_def)
  have b: "loadDefaultConnectionConfig nested
             = \<lparr>host = ''127.0.0.1'', user = ''root'', password = [], port = Num 3306,
                database = None, waitForConnections = True, connectionLimit = Num 10,
                queueLimit = Num 0\<rparr>"
    by (simp add: nested_def both_def bare_def loadDefaultConnectionConfig_def read_defs)
  have q: "loadPermissionConfig nested
             = \<lparr>allowedSqlTypes = [''SELECT''], tablePatterns = [''*''],
                allowedDatabases = [''*''], allowMultiStatement = False, readOnly = True\<rparr>"
    by (simp add: nested_def both_def bare_def loadPermissionConfig_def read_defs)
  have u: "Number nested ''5'' = Num 5"
    by (simp add: nested_def both_def bare_def)
  have "\<exists>c. lookup_source \<lparr>own = [(''prod'', nested_source)], proto = None\<rparr> ''prod'' = Config c
          \<and> host (connection c) = ''inline.example''
          \<and> user (connection c) = ''root''
          \<and> password (connection c) = []
          \<and> port (connection c) = Num 3307
          \<and> database (connection c) = None
          \<and> waitForConnections (connection c) = True
          \<and> connectionLimit (connection c) = Num 10
          \<and> queueLimit (connection c) = Num 5
          \<and> allowedSqlTypes (permissions c) = [''SELECT'', ''SHOW'']
          \<and> tablePatterns (permissions c) = [''*'']
          \<and> allowedDatabases (permissions c) = [''*'']
          \<and> allowMultiStatement (permissions c) = False
          \<and> readOnly (permissions c) = False"
    using inline_definition_decides [OF nested_sources nested_env d n rc refl refl]
    unfolding p b q
    by (simp add: field_defs u text_defs)
  then show ?thesis
    by (simp add: nested_file nested_env nested_sources) (simp add: nested_prod_def)
qed

text \<open>
  The claim C3 as stated fails: the file defines \<open>prod\<close> with user \<open>reader\<close>, the inline
  override defines \<open>prod\<close> without a user, and the resolved user is the base default
  \<open>root\<close>.
\<close>

theorem file_definition_not_consulted:
  "loadServerConfigFile both
     = Inr (Some (\<lparr>defaultSource = None,
                    sources = [(''prod'', JObject [(''host'', JString ''file.example''),
                                                   (''user'', JString ''reader'')])]\<rparr>,
                  ''/srv/.mysql-mcp-server-secure/config.json''))
   \<and> parse_env_sources both
     = Inr (Some [(''prod'', JObject [(''host'', JString ''inline.example'')])])
   \<and> user (loadDefaultConnectionConfig both) = ''root''
   \<and> loadSourceConfigs both
     = Inr \<lparr>own = [(''prod'',
                    \<lparr>connection =
                       \<lparr>host = ''inline.example'', user = ''root'', password = [],
                        port = Num 3306, database = None, waitForConnections = True,
                        connectionLimit = Num 10, queueLimit = Num 0\<rparr>,
                     permissions =
                       \<lparr>allowedSqlTypes = [''SELECT''], tablePatterns = [''*''],
                        allowedDatabases = [''*''], allowMultiStatement = False,
                        readOnly = True\<rparr>\<rparr>)],
            proto = None\<rparr>"
  by (simp add: both_sources both_file both_env)
    (simp add: both_def bare_def loadDefaultConnectionConfig_def read_defs)

section \<open>Properties of source resolution and startup\<close>

lemma lookup_undefined_iff:
  "(lookup_source t n = Undefined)
     = (n \<notin> set (source_names t) \<and> n \<notin> set (inherited_names t) \<and> n \<noteq> ''__proto__'')"
proof (cases "map_of (own t) n")
  case None
  then have "n \<notin> set (source_names t)"
    by (simp add: source_names_def map_of_eq_None_iff)
  with None show ?thesis
    by (cases "proto t")
      (auto simp: lookup_source_def inherited_names_def object_prototype_keys_def)
next
  case (Some c)
  then have "n \<in> set (source_names t)"
    by (auto simp: source_names_def dest: map_of_SomeD intro: rev_image_eqI)
  with Some show ?thesis
    by (simp add: lookup_source_def)
qed

lemma resolved_name:
  "shown (if truthy source \<and> trim (shown source) \<noteq> [] then source else d)
     = (if unspecified source then shown d else shown source)"
  by (cases source) (auto simp: unspecified_def truthy_def shown_def trim_def)

lemma getSourceConfig_cases:
  "getSourceConfig t d source =
     (let n = (if unspecified source then shown d else shown source)
      in case lookup_source t n of
           Undefined \<Rightarrow> Inl (unknown_source n t)
         | config \<Rightarrow> Inr (n, config))"
  by (simp add: getSourceConfig_def resolved_name Let_def)

lemma getSourceConfig_default: "getSourceConfig t d d = getSourceConfig t d None"
  by (cases d) (simp_all add: getSourceConfig_cases unspecified_def shown_def)

text \<open>
  C4, as amended. When the default source name is neither a configured source nor a name
  that the table inherits, and the connection test runs (\<open>SKIP_DB_TEST\<close> is not \<open>true\<close>) on
  the default source (\<open>TEST_ALL_SOURCES\<close> is not \<open>true\<close>), the process exits before serving
  with the unknown-source error, which lists the configured source names.
\<close>

theorem unknown_default_stops_startup:
  assumes "loadServerConfigFile rt = Inr fc"
    and "loadSourceConfigs rt = Inr t"
    and "d = shown (default_source rt fc t)"
    and "d \<notin> set (source_names t)"
    and "d \<notin> set (inherited_names t)"
    and "d \<noteq> ''__proto__''"
    and "env rt ''SKIP_DB_TEST'' \<noteq> Some ''true''"
    and "env rt ''TEST_ALL_SOURCES'' \<noteq> Some ''true''"
  shows "start rt
           = Exit (Error (''Unknown source '' @ [CHR 0x27] @ d @ [CHR 0x27]
                            @ ''. Available sources: '' @ join '', '' (source_names t)))"
proof -
  let ?D = "default_source rt fc t"
  have u: "lookup_source t d = Undefined"
    using assms(4-6) by (simp add: lookup_undefined_iff)
  have "getSourceConfig t ?D ?D = Inl (unknown_source d t)"
    using u by (simp add: getSourceConfig_default getSourceConfig_cases unspecified_def assms(3))
  then have "test_sources rt t ?D [?D] = Some (unknown_source d t)"
    by (simp add: getPool_def)
  then have "main rt t ?D = Exit (unknown_source d t)"
    using assms(7,8) by (simp add: main_def)
  then show ?thesis
    by (simp add: start_def assms(1,2) unknown_source_def)
qed

lemma bare_file:
  assumes "e ''MYSQL_MCP_CONFIG_PATH'' = None"
  shows "loadServerConfigFile (bare\<lparr>env := e\<rparr>) = Inr None"
  using assms by (simp add: bare_def load_defs read_defs)

lemma bare_sources:
  assumes "e ''MYSQL_MCP_CONFIG_PATH'' = None" "e ''MYSQL_SOURCES'' = None"
     "e ''ALLOWED_SQL_TYPES'' = None" "e ''TABLE_PATTERNS'' = None" "e ''ALLOWED_DATABASES'' = None"
     "e ''ALLOW_MULTI_STATEMENT'' = None" "e ''READ_ONLY'' = None" "e ''DB_HOST'' = None"
     "e ''DB_USER'' = None" "e ''DB_PASSWORD'' = None" "e ''DB_PORT'' = None" "e ''DB_NAME'' = None"
  shows "loadSourceConfigs (bare\<lparr>env := e\<rparr>) = Inr default_only"
  using assms
  by (simp add: bare_def load_defs read_defs object_defs default_only_def base_source_def)

theorem unknown_default_stops_startup_witness:
  "loadServerConfigFile misnamed = Inr None
   \<and> loadSourceConfigs misnamed = Inr default_only
   \<and> default_source misnamed None default_only = Some ''nope''
   \<and> source_names default_only = [''default'']
   \<and> start misnamed = Exit (Error ''Unknown source 'nope'. Available sources: default'')"
proof -
  have f: "loadServerConfigFile misnamed = Inr None"
    unfolding misnamed_def by (rule bare_file) simp
  have s: "loadSourceConfigs misnamed = Inr default_only"
    unfolding misnamed_def by (rule bare_sources) simp_all
  have d: "''nope'' = shown (default_source misnamed None default_only)"
    by (simp add: default_source_def misnamed_def bare_def read_defs)
  have n: "''nope'' \<notin> set (source_names default_only)"
    by (simp add: source_names_def default_only_def)
  have i: "''nope'' \<notin> set (inherited_names default_only)"
    by (simp add: inherited_names_def default_only_def object_prototype_keys_def)
  have p: "''nope'' \<noteq> ''__proto__''"
    by simp
  have k: "env misnamed ''SKIP_DB_TEST'' \<noteq> Some ''true''"
    by (simp add: misnamed_def bare_def)
  have a: "env misnamed ''TEST_ALL_SOURCES'' \<noteq> Some ''true''"
    by (simp add: misnamed_def bare_def)
  show ?thesis
    using unknown_default_stops_startup [OF f s d n i p k a] f s
    by (simp add: default_source_def misnamed_def bare_def read_defs source_names_def
          default_only_def)
qed

text \<open>
  The claim C4 as stated fails: with \<open>SKIP_DB_TEST=true\<close> and \<open>DEFAULT_SOURCE=nope\<close> the only
  source is \<open>default\<close> and the process goes on to serve.
\<close>

theorem skipped_test_serves:
  "loadSourceConfigs skipping = Inr default_only
   \<and> default_source skipping None default_only = Some ''nope''
   \<and> source_names default_only = [''default'']
   \<and> start skipping = Serving"
proof -
  have f: "loadServerConfigFile skipping = Inr None"
    unfolding skipping_def by (rule bare_file) simp
  have s: "loadSourceConfigs skipping = Inr default_only"
    unfolding skipping_def by (rule bare_sources) simp_all
  have m: "start skipping = Serving"
    by (simp add: start_def f s main_def) (simp add: skipping_def bare_def)
  show ?thesis
    using s m
    by (simp add: default_source_def skipping_def bare_def read_defs source_names_def
          default_only_def)
qed

text \<open>
  C10, as amended. A source argument that is absent, empty or white space only is
  resolved as the default source name. The unknown-source error is raised only when the
  resolved name, the argument when it is not blank and the default source name otherwise,
  is not a configured source; when the default source name is configured, it is raised
  only for an argument that is not blank and not a configured source.
\<close>

theorem blank_source_is_default:
  "(unspecified source \<longrightarrow>
      getSourceConfig t d source = getSourceConfig t d None
      \<and> (case getSourceConfig t d source of
            Inl e \<Rightarrow> e = unknown_source (shown d) t
          | Inr (n, c) \<Rightarrow> n = shown d \<and> c = lookup_source t (shown d) \<and> c \<noteq> Undefined))
   \<and> (getSourceConfig t d source = Inl e \<longrightarrow>
        (let n = (if unspecified source then shown d else shown source)
         in e = unknown_source n t \<and> n \<notin> set (source_names t)))
   \<and> (getSourceConfig t d source = Inl e \<and> shown d \<in> set (source_names t) \<longrightarrow>
        \<not> unspecified source \<and> shown source \<notin> set (source_names t))"
proof (intro conjI impI)
  assume u: "unspecified source"
  show "getSourceConfig t d source = getSourceConfig t d None"
    using u by (simp add: getSourceConfig_cases unspecified_def)
  show "case getSourceConfig t d source of
          Inl e \<Rightarrow> e = unknown_source (shown d) t
        | Inr (n, c) \<Rightarrow> n = shown d \<and> c = lookup_source t (shown d) \<and> c \<noteq> Undefined"
    using u by (cases "lookup_source t (shown d)") (simp_all add: getSourceConfig_cases)
next
  assume e: "getSourceConfig t d source = Inl e"
  define n where "n = (if unspecified source then shown d else shown source)"
  have "lookup_source t n = Undefined \<and> e = unknown_source n t"
    using e by (cases "lookup_source t n") (simp_all add: getSourceConfig_cases n_def)
  then show "let n = (if unspecified source then shown d else shown source)
             in e = unknown_source n t \<and> n \<notin> set (source_names t)"
    by (simp add: lookup_undefined_iff n_def)
next
  assume a: "getSourceConfig t d source = Inl e \<and> shown d \<in> set (source_names t)"
  define n where "n = (if unspecified source then shown d else shown source)"
  have "lookup_source t n = Undefined"
    using a by (cases "lookup_source t n") (simp_all add: getSourceConfig_cases n_def)
  then have "n \<notin> set (source_names t)"
    by (simp add: lookup_undefined_iff)
  with a have b: "\<not> unspecified source \<and> shown source \<notin> set (source_names t)"
    by (cases "unspecified source") (simp_all add: n_def)
  from b show "\<not> unspecified source" ..
  from b show "shown source \<notin> set (source_names t)" ..
qed

theorem blank_source_is_default_witness:
  "unspecified (Some ''   '')
   \<and> getSourceConfig default_only (Some ''default'') (Some ''   '')
       = Inr (''default'', Config base_source)
   \<and> getSourceConfig default_only (Some ''default'') (Some ''other'')
       = Inl (Error ''Unknown source 'other'. Available sources: default'')
   \<and> \<not> unspecified (Some ''other'')
   \<and> ''other'' \<notin> set (source_names default_only)"
  using blank_source_is_default [of "Some ''   ''" default_only "Some ''default''"]
    blank_source_is_default [of "Some ''other''" default_only "Some ''default''"
      "Error ''Unknown source 'other'. Available sources: default''"]
  by (simp add: unspecified_def getSourceConfig_def lookup_source_def default_only_def
        inherited_names_def object_prototype_keys_def unknown_source_def source_names_def
        trim_def is_space_def read_defs)

text \<open>
  The claim C10 as stated fails: the server of the previous example serves, and an
  invocation without a source argument gets the unknown-source error.
\<close>

theorem unknown_for_omitted_source:
  "loadSourceConfigs skipping = Inr default_only
   \<and> default_source skipping None default_only = Some ''nope''
   \<and> start skipping = Serving
   \<and> getSourceConfig default_only (Some ''nope'') None
       = Inl (Error ''Unknown source 'nope'. Available sources: default'')
   \<and> mysql_query skipping default_only (Some ''nope'') ''SELECT 1'' None None
       = ToolExecutionError (Error ''Unknown source 'nope'. Available sources: default'')"
proof -
  have f: "loadServerConfigFile skipping = Inr None"
    unfolding skipping_def by (rule bare_file) simp
  have s: "loadSourceConfigs skipping = Inr default_only"
    unfolding skipping_def by (rule bare_sources) simp_all
  have m: "start skipping = Serving"
    by (simp add: start_def f s main_def) (simp add: skipping_def bare_def)
  have g: "getSourceConfig default_only (Some ''nope'') None
       = Inl (Error ''Unknown source 'nope'. Available sources: default'')"
    by (simp add: getSourceConfig_def lookup_source_def default_only_def
        inherited_names_def object_prototype_keys_def unknown_source_def source_names_def
        read_defs)
  show ?thesis
    using s m g
    by (simp add: mysql_query_def default_source_def read_defs)
      (simp add: skipping_def bare_def source_names_def default_only_def)
qed

section \<open>Properties of the query tool\<close>

lemma first_denied_find:
  "first_denied mm p db cdb refs
     = map_option (\<lambda>r. error (ref_check mm p db cdb r))
         (find (\<lambda>r. \<not> valid (ref_check mm p db cdb r)) refs)"
  by (induction refs) (simp_all add: ref_check_def Let_def)

lemma extract_drop:
  "extractTableRefs ''DROP TABLE secret_users'' = [TableRef None ''secret_users'']"
  by code_simp

lemma extract_join:
  "extractTableRefs ''SELECT * FROM orders JOIN secret_users ON 1''
     = [TableRef None ''orders'', TableRef None ''secret_users'']"
  by code_simp

lemma mysql_query_cases:
  "mysql_query rt t d sql db source =
     (case getSourceConfig t d source of
        Inl e \<Rightarrow> ToolExecutionError e
      | Inr (n, Config c) \<Rightarrow>
          if \<not> valid (validateSqlType sql (permissions c))
          then Reply (''Permission denied: '' @ shown (error (validateSqlType sql (permissions c))))
                 True
          else (case find (\<lambda>r. \<not> valid (ref_check (minimatch rt) (permissions c) db
                                          (database (connection c)) r))
                       (extractTableRefs sql) of
                  Some r \<Rightarrow>
                    Reply (''Permission denied: ''
                             @ shown (error (ref_check (minimatch rt) (permissions c) db
                                               (database (connection c)) r))) True
                | None \<Rightarrow> ExecuteQuery sql db n)
      | Inr (n, _) \<Rightarrow> ToolExecutionError TypeError)"
  by (simp add: mysql_query_def first_denied_find Let_def
        split: sum.splits prod.splits looked_up.splits option.splits)

lemma ref_check_error:
  "\<not> valid (ref_check mm p db cdb r) \<Longrightarrow>
   error (ref_check mm p db cdb r)
     = (if truthy (or_else (ref_database r) (or_else db cdb))
           \<and> \<not> matchesPattern mm (shown (or_else (ref_database r) (or_else db cdb)))
                 (allowedDatabases p)
        then Some (database_error (shown (or_else (ref_database r) (or_else db cdb))))
        else Some (table_error (ref_table r)))"
  by (simp add: ref_check_def validateTableAccess_def split: if_splits)

text \<open>
  C2, as amended. When the source resolves and the statement-type validation passes, a
  query with a reference that fails its check is answered with the permission denial of
  the first failing reference in extraction order, whose reason is the database reason
  or the table reason of that reference. In every case, a query that is forwarded to
  \<open>executeQuery\<close> has a resolved source, a valid statement type and no failing reference.
\<close>

theorem first_failing_reference_denies:
  "(getSourceConfig t d source = Inr (n, Config c)
      \<and> valid (validateSqlType sql (permissions c))
      \<and> find (\<lambda>r. \<not> valid (ref_check (minimatch rt) (permissions c) db
                              (database (connection c)) r))
           (extractTableRefs sql) = Some r
    \<longrightarrow> mysql_query rt t d sql db source
          = Reply (''Permission denied: ''
                     @ shown (error (ref_check (minimatch rt) (permissions c) db
                                       (database (connection c)) r))) True
        \<and> error (ref_check (minimatch rt) (permissions c) db (database (connection c)) r)
          \<in> {Some (database_error (shown (or_else (ref_database r)
                                             (or_else db (database (connection c)))))),
              Some (table_error (ref_table r))})
   \<and> (mysql_query rt t d sql db source = ExecuteQuery sql' db' n'
    \<longrightarrow> (\<exists>c'. getSourceConfig t d source = Inr (n', Config c')
              \<and> valid (validateSqlType sql (permissions c'))
              \<and> (\<forall>r' \<in> set (extractTableRefs sql).
                    valid (ref_check (minimatch rt) (permissions c') db
                             (database (connection c')) r'))))"
proof (intro conjI impI)
  assume a: "getSourceConfig t d source = Inr (n, Config c)
      \<and> valid (validateSqlType sql (permissions c))
      \<and> find (\<lambda>r. \<not> valid (ref_check (minimatch rt) (permissions c) db
                              (database (connection c)) r))
           (extractTableRefs sql) = Some r"
  then show "mysql_query rt t d sql db source
          = Reply (''Permission denied: ''
                     @ shown (error (ref_check (minimatch rt) (permissions c) db
                                       (database (connection c)) r))) True"
    by (simp add: mysql_query_cases)
  from a have "\<not> valid (ref_check (minimatch rt) (permissions c) db (database (connection c)) r)"
    by (auto simp: find_Some_iff)
  then show "error (ref_check (minimatch rt) (permissions c) db (database (connection c)) r)
          \<in> {Some (database_error (shown (or_else (ref_database r)
                                             (or_else db (database (connection c)))))),
              Some (table_error (ref_table r))}"
    by (simp add: ref_check_error)
next
  assume e: "mysql_query rt t d sql db source = ExecuteQuery sql' db' n'"
  then obtain c' where g: "getSourceConfig t d source = Inr (n', Config c')"
    by (auto simp: mysql_query_cases
          split: sum.splits prod.splits looked_up.splits option.splits if_splits)
  from e g have v: "valid (validateSqlType sql (permissions c'))"
    by (auto simp: mysql_query_cases split: if_splits)
  from e g v have "find (\<lambda>r. \<not> valid (ref_check (minimatch rt) (permissions c') db
                              (database (connection c')) r))
           (extractTableRefs sql) = None"
    by (auto simp: mysql_query_cases split: option.splits)
  then have "\<forall>r' \<in> set (extractTableRefs sql).
               valid (ref_check (minimatch rt) (permissions c') db (database (connection c')) r')"
    by (simp add: find_None_iff)
  with g v show "\<exists>c'. getSourceConfig t d source = Inr (n', Config c')
              \<and> valid (validateSqlType sql (permissions c'))
              \<and> (\<forall>r' \<in> set (extractTableRefs sql).
                    valid (ref_check (minimatch rt) (permissions c') db
                             (database (connection c')) r'))"
    by blast
qed

lemma extract_from:
  "extractTableRefs ''SELECT * FROM orders'' = [TableRef None ''orders'']"
  by code_simp

lemmas source_defs = getSourceConfig_def lookup_source_def inherited_names_def
  object_prototype_keys_def unknown_source_def source_names_def

lemmas access_defs = ref_check_def validateTableAccess_def matchesPattern_def
  table_error_def database_error_def

theorem first_failing_reference_denies_witness:
  "getSourceConfig orders_only (Some ''default'') None = Inr (''default'', Config orders_source)
   \<and> valid (validateSqlType ''SELECT * FROM orders JOIN secret_users ON 1''
              (permissions orders_source))
   \<and> extractTableRefs ''SELECT * FROM orders JOIN secret_users ON 1''
       = [TableRef None ''orders'', TableRef None ''secret_users'']
   \<and> mysql_query bare orders_only (Some ''default'')
         ''SELECT * FROM orders JOIN secret_users ON 1'' None None
       = Reply ''Permission denied: Access to table 'secret_users' is not allowed'' True
   \<and> mysql_query bare orders_only (Some ''default'') ''SELECT * FROM orders'' None None
       = ExecuteQuery ''SELECT * FROM orders'' None ''default''"
proof -
  let ?q = "''SELECT * FROM orders JOIN secret_users ON 1''"
  let ?check = "ref_check (minimatch bare) (permissions orders_source) None
                  (database (connection orders_source))"
  have g: "getSourceConfig orders_only (Some ''default'') None
             = Inr (''default'', Config orders_source)"
    by (simp add: source_defs orders_only_def read_defs)
  have v: "valid (validateSqlType ?q (permissions orders_source))"
    by (simp add: orders_source_def strict_def validateSqlType_def text_defs type_defs)
  have v': "valid (validateSqlType ''SELECT * FROM orders'' (permissions orders_source))"
    by (simp add: orders_source_def strict_def validateSqlType_def text_defs type_defs)
  have c1: "valid (?check (TableRef None ''orders''))"
    by (simp add: access_defs orders_source_def base_source_def strict_def bare_def read_defs
          toUpperCase_def)
  have c2: "?check (TableRef None ''secret_users'')
              = \<lparr>valid = False, sqlType = None,
                 error = Some ''Access to table 'secret_users' is not allowed''\<rparr>"
    by (simp add: access_defs orders_source_def base_source_def strict_def bare_def read_defs
          toUpperCase_def upper_char_def)
  have f: "find (\<lambda>r. \<not> valid (?check r)) (extractTableRefs ?q)
             = Some (TableRef None ''secret_users'')"
    by (simp add: extract_join c1 c2)
  have e: "mysql_query bare orders_only (Some ''default'') ''SELECT * FROM orders'' None None
             = ExecuteQuery ''SELECT * FROM orders'' None ''default''"
    by (simp add: mysql_query_cases g v' extract_from c1)
  note first = first_failing_reference_denies
      [of orders_only "Some ''default''" None "''default''" orders_source ?q bare None
          "TableRef None ''secret_users''"]
  note second = first_failing_reference_denies
      [of orders_only "Some ''default''" None "''default''" orders_source
          "''SELECT * FROM orders''" bare None "TableRef None ''orders''"
          "''SELECT * FROM orders''" None "''default''"]
  have m: "mysql_query bare orders_only (Some ''default'') ?q None None
             = Reply (''Permission denied: ''
                        @ shown (error (?check (TableRef None ''secret_users'')))) True"
    using first [THEN conjunct1, THEN mp, OF conjI [OF g conjI [OF v f]]]
    by (rule conjunct1)
  have a: "\<exists>c'. getSourceConfig orders_only (Some ''default'') None
                   = Inr (''default'', Config c')
              \<and> valid (validateSqlType ''SELECT * FROM orders'' (permissions c'))
              \<and> (\<forall>r' \<in> set (extractTableRefs ''SELECT * FROM orders'').
                    valid (ref_check (minimatch bare) (permissions c') None
                             (database (connection c')) r'))"
    using second [THEN conjunct2, THEN mp, OF e] .
  have "mysql_query bare orders_only (Some ''default'') ?q None None
          = Reply ''Permission denied: Access to table 'secret_users' is not allowed'' True"
    using a by (simp add: m c2 shown_def)
  then show ?thesis
    by (simp add: g v extract_join e)
qed

text \<open>
  The claim C2 as stated fails: the one reference of \<open>DROP TABLE secret_users\<close> fails the
  table check of the policy, and the denial carries the reason of the statement-type
  check, which comes first.
\<close>

theorem type_reason_comes_first:
  "extractTableRefs ''DROP TABLE secret_users'' = [TableRef None ''secret_users'']
   \<and> getSourceConfig strict_only (Some ''default'') None
       = Inr (''default'', Config \<lparr>connection = connection base_source, permissions = strict\<rparr>)
   \<and> ref_check (minimatch bare) strict None (database (connection base_source))
         (TableRef None ''secret_users'')
       = \<lparr>valid = False, sqlType = None,
          error = Some ''Access to table 'secret_users' is not allowed''\<rparr>
   \<and> mysql_query bare strict_only (Some ''default'') ''DROP TABLE secret_users'' None None
       = Reply ''Permission denied: SQL type 'DROP' is not allowed. Allowed types: SELECT'' True"
proof -
  have g: "getSourceConfig strict_only (Some ''default'') None
       = Inr (''default'', Config \<lparr>connection = connection base_source, permissions = strict\<rparr>)"
    by (simp add: source_defs strict_only_def read_defs)
  have v: "validateSqlType ''DROP TABLE secret_users'' strict
             = \<lparr>valid = False, sqlType = None,
                error = Some ''SQL type 'DROP' is not allowed. Allowed types: SELECT''\<rparr>"
    by (simp add: strict_def validateSqlType_def text_defs type_defs not_allowed_error_def)
  have c: "ref_check (minimatch bare) strict None (database (connection base_source))
         (TableRef None ''secret_users'')
       = \<lparr>valid = False, sqlType = None,
          error = Some ''Access to table 'secret_users' is not allowed''\<rparr>"
    by (simp add: access_defs base_source_def strict_def bare_def read_defs
          toUpperCase_def upper_char_def)
  show ?thesis
    by (simp add: extract_drop g c mysql_query_cases v shown_def)
qed

end
